theory Spec2Isabelle
  imports Complex_Main "HOL-Library.Stream"
begin

section \<open>The particle backgrounds of a10citylabs.github.io\<close>

text \<open>
  The repository holds three near-identical WebGL backgrounds, each a class
  \<^verbatim>\<open>PolkadotBackground\<close> in a script of its own: the plain polkadots
  (2000 dots, one spawn attempt per interval), the festive polkadots (9 dots,
  pre-populated, up to three spawn attempts per interval) and the triangles
  (10 triangles, rotation, positions outside the centre third).

  JavaScript numbers are IEEE doubles; they are idealised as \<^typ>\<open>real\<close> here, so
  rounding is not part of the model. A division by zero, which yields NaN or an
  infinity in JavaScript, is the value \<open>None\<close>. The results of
  \<^verbatim>\<open>Math.random()\<close> and \<^verbatim>\<open>performance.now()\<close> are read from two streams
  carried by the \<open>world\<close>; the page (children of the body, resize listeners,
  pending animation frames, console) is part of the \<open>world\<close> too. What the
  scripts do to the WebGL context (shaders, buffers, draw calls) is not modelled
  beyond the fields \<open>gl\<close> and \<open>program\<close> of the instance.
\<close>

subsection \<open>Configuration\<close>

type_synonym rgba = "real list"

record config =
  maxDots :: int
  spawnInterval :: real
  minLifetime :: real
  maxLifetime :: real
  minSize :: real
  maxSize :: real
  colors :: "rgba list"

definition CONFIG_dots :: config where
  "CONFIG_dots = \<lparr> maxDots = 2000, spawnInterval = 600,
     minLifetime = 2500, maxLifetime = 5000, minSize = 20, maxSize = 500,
     colors = [[0.75, 1.0, 0.0, 0.6], [0.75, 1.0, 0.0, 0.4], [1.0, 1.0, 1.0, 0.25],
               [0.0, 0.46, 0.85, 0.4], [0.63, 0.88, 0.0, 0.5]] \<rparr>"

definition CONFIG_festive :: config where
  "CONFIG_festive = \<lparr> maxDots = 9, spawnInterval = 500,
     minLifetime = 3000, maxLifetime = 4000, minSize = 50, maxSize = 100,
     colors = [[0.75, 1.0, 0.0, 0.85], [1.0, 0.84, 0.0, 0.8], [1.0, 0.4, 0.7, 0.75],
               [0.0, 1.0, 1.0, 0.75], [1.0, 0.5, 0.0, 0.8], [0.6, 0.4, 1.0, 0.75],
               [1.0, 1.0, 1.0, 0.7], [0.0, 0.8, 1.0, 0.75], [1.0, 0.2, 0.4, 0.75],
               [0.4, 1.0, 0.6, 0.75]] \<rparr>"

definition CONFIG_triangles :: config where
  "CONFIG_triangles = \<lparr> maxDots = 10, spawnInterval = 1000,
     minLifetime = 4000, maxLifetime = 6000, minSize = 70, maxSize = 80,
     colors = [[0.0, 0.34, 0.7, 0.75], [0.0, 0.46, 0.85, 0.75], [0.0, 0.5, 0.9, 0.7],
               [0.0, 0.4, 0.75, 0.75]] \<rparr>"

subsection \<open>Particles, the instance and the world\<close>

text \<open>
  The fields \<^verbatim>\<open>x\<close>, \<^verbatim>\<open>y\<close> and \<^verbatim>\<open>size\<close> of a dot are \<open>dot_x\<close>, \<open>dot_y\<close> and
  \<open>dot_size\<close>. The colour is \<open>None\<close> where the palette is read out of range
  (\<^verbatim>\<open>undefined\<close> in JavaScript).
\<close>

record dot =
  dot_x :: real
  dot_y :: real
  dot_size :: real
  color :: "rgba option"
  birthTime :: real
  lifetime :: real

record tdot = dot +
  rotation :: real
  rotationSpeed :: real

record 'd background =
  canvas :: "nat option"
  canvasWidth :: real
  canvasHeight :: real
  gl :: bool
  program :: bool
  dots :: "'d list"
  lastSpawnTime :: real
  animationId :: "nat option"

text \<open>
  A node of the page is a number, fresh from \<open>nextNode\<close>. A resize listener is
  recorded by the canvas of the instance whose \<^verbatim>\<open>resize()\<close> it calls; the instance
  itself keeps no reference to it. A pending animation frame is its handle.
\<close>

record world =
  rnd :: "real stream"
  perf :: "real stream"
  webgl :: bool
  innerWidth :: real
  innerHeight :: real
  devicePixelRatio :: real
  body :: "nat list"
  nextNode :: nat
  resizeListeners :: "nat option list"
  frames :: "nat list"
  frameCounter :: nat
  console :: "string list"

definition Math_random :: "world \<Rightarrow> real \<times> world" where
  "Math_random w = (shd (rnd w), w\<lparr>rnd := stl (rnd w)\<rparr>)"

definition performance_now :: "world \<Rightarrow> real \<times> world" where
  "performance_now w = (shd (perf w), w\<lparr>perf := stl (perf w)\<rparr>)"

definition requestAnimationFrame :: "world \<Rightarrow> nat \<times> world" where
  "requestAnimationFrame w =
     (let h = Suc (frameCounter w)
      in (h, w\<lparr>frameCounter := h, frames := frames w @ [h]\<rparr>))"

definition cancelAnimationFrame :: "nat \<Rightarrow> world \<Rightarrow> world" where
  "cancelAnimationFrame h w = w\<lparr>frames := removeAll h (frames w)\<rparr>"

text \<open>\<^verbatim>\<open>CONFIG.colors[Math.floor(r * CONFIG.colors.length)]\<close>\<close>

definition pickColor :: "config \<Rightarrow> real \<Rightarrow> rgba option" where
  "pickColor cfg r =
     (let i = \<lfloor>r * real (length (colors cfg))\<rfloor>
      in if 0 \<le> i \<and> i < int (length (colors cfg)) then Some (colors cfg ! nat i) else None)"

subsection \<open>Spawning\<close>

text \<open>\<^verbatim>\<open>spawnDot\<close> of the plain and the festive script (the same text, each with its own \<^verbatim>\<open>CONFIG\<close>).\<close>

definition spawnDot :: "config \<Rightarrow> dot background \<times> world \<Rightarrow> dot background \<times> world" where
  "spawnDot cfg bw =
     (let (b, w) = bw in
      if maxDots cfg \<le> int (length (dots b)) then (b, w)
      else
        let (r1, w1) = Math_random w;
            c = pickColor cfg r1;
            (r2, w2) = Math_random w1;
            lt = minLifetime cfg + r2 * (maxLifetime cfg - minLifetime cfg);
            (r3, w3) = Math_random w2;
            (r4, w4) = Math_random w3;
            (r5, w5) = Math_random w4;
            (t, w6) = performance_now w5
        in (b\<lparr>dots := dots b @
               [\<lparr> dot_x = r3 * 2 - 1, dot_y = r4 * 2 - 1,
                  dot_size = minSize cfg + r5 * (maxSize cfg - minSize cfg),
                  color = c, birthTime = t, lifetime = lt \<rparr>]\<rparr>, w6))"

text \<open>\<^verbatim>\<open>getRandomX\<close> of the triangle script.\<close>

definition getRandomX :: "world \<Rightarrow> real \<times> world" where
  "getRandomX w =
     (let (r1, w1) = Math_random w;
          isLeft = (r1 < 0.5);
          (r2, w2) = Math_random w1
      in if isLeft then (- 1 + r2 * 0.667, w2) else (0.333 + r2 * 0.667, w2))"

text \<open>\<^verbatim>\<open>spawnDot\<close> of the triangle script.\<close>

definition spawnDot_tri :: "tdot background \<times> world \<Rightarrow> tdot background \<times> world" where
  "spawnDot_tri bw =
     (let (b, w) = bw in
      if maxDots CONFIG_triangles \<le> int (length (dots b)) then (b, w)
      else
        let (r1, w1) = Math_random w;
            c = pickColor CONFIG_triangles r1;
            (r2, w2) = Math_random w1;
            lt = minLifetime CONFIG_triangles
                   + r2 * (maxLifetime CONFIG_triangles - minLifetime CONFIG_triangles);
            (px, w3) = getRandomX w2;
            (r4, w4) = Math_random w3;
            (r5, w5) = Math_random w4;
            (t, w6) = performance_now w5;
            (r6, w7) = Math_random w6;
            (r7, w8) = Math_random w7
        in (b\<lparr>dots := dots b @
               [\<lparr> dot_x = px, dot_y = r4 * 2 - 1,
                  dot_size = minSize CONFIG_triangles
                     + r5 * (maxSize CONFIG_triangles - minSize CONFIG_triangles),
                  color = c, birthTime = t, lifetime = lt,
                  rotation = r6 * pi * 2, rotationSpeed = (r7 - 0.5) * 0.002 \<rparr>]\<rparr>, w8))"

subsection \<open>Pre-population (festive and triangle scripts)\<close>

fun prePopulateLoop ::
  "config \<Rightarrow> real \<Rightarrow> nat \<Rightarrow> dot background \<times> world \<Rightarrow> dot background \<times> world" where
  "prePopulateLoop cfg currentTime 0 bw = bw"
| "prePopulateLoop cfg currentTime (Suc n) bw =
     (let (b, w) = bw;
          (r1, w1) = Math_random w;
          c = pickColor cfg r1;
          (r2, w2) = Math_random w1;
          lt = minLifetime cfg + r2 * (maxLifetime cfg - minLifetime cfg);
          (r3, w3) = Math_random w2;
          birthOffset = r3 * lt * 0.8;
          (r4, w4) = Math_random w3;
          (r5, w5) = Math_random w4;
          (r6, w6) = Math_random w5
      in prePopulateLoop cfg currentTime n
           (b\<lparr>dots := dots b @
               [\<lparr> dot_x = r4 * 2 - 1, dot_y = r5 * 2 - 1,
                  dot_size = minSize cfg + r6 * (maxSize cfg - minSize cfg),
                  color = c, birthTime = currentTime - birthOffset, lifetime = lt \<rparr>]\<rparr>, w6))"

definition prePopulateDots :: "dot background \<times> world \<Rightarrow> dot background \<times> world" where
  "prePopulateDots bw =
     (let (b, w) = bw;
          (currentTime, w1) = performance_now w;
          targetDots = \<lfloor>real_of_int (maxDots CONFIG_festive) * 0.7\<rfloor>
      in prePopulateLoop CONFIG_festive currentTime (nat targetDots) (b, w1))"

fun prePopulateLoop_tri ::
  "real \<Rightarrow> nat \<Rightarrow> tdot background \<times> world \<Rightarrow> tdot background \<times> world" where
  "prePopulateLoop_tri currentTime 0 bw = bw"
| "prePopulateLoop_tri currentTime (Suc n) bw =
     (let (b, w) = bw;
          (r1, w1) = Math_random w;
          c = pickColor CONFIG_triangles r1;
          (r2, w2) = Math_random w1;
          lt = minLifetime CONFIG_triangles
                 + r2 * (maxLifetime CONFIG_triangles - minLifetime CONFIG_triangles);
          (r3, w3) = Math_random w2;
          birthOffset = r3 * lt * 0.8;
          (px, w4) = getRandomX w3;
          (r5, w5) = Math_random w4;
          (r6, w6) = Math_random w5;
          (r7, w7) = Math_random w6;
          (r8, w8) = Math_random w7
      in prePopulateLoop_tri currentTime n
           (b\<lparr>dots := dots b @
               [\<lparr> dot_x = px, dot_y = r5 * 2 - 1,
                  dot_size = minSize CONFIG_triangles
                     + r6 * (maxSize CONFIG_triangles - minSize CONFIG_triangles),
                  color = c, birthTime = currentTime - birthOffset, lifetime = lt,
                  rotation = r7 * pi * 2, rotationSpeed = (r8 - 0.5) * 0.002 \<rparr>]\<rparr>, w8))"

definition prePopulateDots_tri :: "tdot background \<times> world \<Rightarrow> tdot background \<times> world" where
  "prePopulateDots_tri bw =
     (let (b, w) = bw;
          (currentTime, w1) = performance_now w;
          targetDots = \<lfloor>real_of_int (maxDots CONFIG_triangles) * 0.7\<rfloor>
      in prePopulateLoop_tri currentTime (nat targetDots) (b, w1))"

subsection \<open>The update step\<close>

text \<open>The plain script: one spawn attempt per interval, with a 70% gate.\<close>

definition updateDots_dots :: "real \<Rightarrow> dot background \<times> world \<Rightarrow> dot background \<times> world" where
  "updateDots_dots currentTime bw =
     (let (b, w) = bw;
          b1 = b\<lparr>dots := filter (\<lambda>d. currentTime - birthTime d < lifetime d) (dots b)\<rparr>
      in if currentTime - lastSpawnTime b1 > spawnInterval CONFIG_dots then
           let (r, w1) = Math_random w;
               (b2, w2) = (if r < 0.7 then spawnDot CONFIG_dots (b1, w1) else (b1, w1))
           in (b2\<lparr>lastSpawnTime := currentTime\<rparr>, w2)
         else (b1, w))"

text \<open>The festive script: up to three attempts per interval, each with an 85% gate.\<close>

fun spawnLoop :: "nat \<Rightarrow> dot background \<times> world \<Rightarrow> dot background \<times> world" where
  "spawnLoop 0 bw = bw"
| "spawnLoop (Suc n) bw =
     (let (b, w) = bw;
          (r, w1) = Math_random w
      in spawnLoop n (if r < 0.85 then spawnDot CONFIG_festive (b, w1) else (b, w1)))"

definition updateDots_festive :: "real \<Rightarrow> dot background \<times> world \<Rightarrow> dot background \<times> world" where
  "updateDots_festive currentTime bw =
     (let (b, w) = bw;
          b1 = b\<lparr>dots := filter (\<lambda>d. currentTime - birthTime d < lifetime d) (dots b)\<rparr>
      in if currentTime - lastSpawnTime b1 > spawnInterval CONFIG_festive then
           let dotsToSpawn = min 3 (maxDots CONFIG_festive - int (length (dots b1)));
               (b2, w2) = spawnLoop (nat dotsToSpawn) (b1, w)
           in (b2\<lparr>lastSpawnTime := currentTime\<rparr>, w2)
         else (b1, w))"

text \<open>
  The triangle script: the filter callback also advances the rotation of each
  triangle it keeps.
\<close>

fun spawnLoop_tri :: "nat \<Rightarrow> tdot background \<times> world \<Rightarrow> tdot background \<times> world" where
  "spawnLoop_tri 0 bw = bw"
| "spawnLoop_tri (Suc n) bw =
     (let (b, w) = bw;
          (r, w1) = Math_random w
      in spawnLoop_tri n (if r < 0.85 then spawnDot_tri (b, w1) else (b, w1)))"

definition updateDots_tri :: "real \<Rightarrow> tdot background \<times> world \<Rightarrow> tdot background \<times> world" where
  "updateDots_tri currentTime bw =
     (let (b, w) = bw;
          b1 = b\<lparr>dots := map (\<lambda>d. d\<lparr>rotation := rotation d + rotationSpeed d * 16\<rparr>)
                          (filter (\<lambda>d. currentTime - birthTime d < lifetime d) (dots b))\<rparr>
      in if currentTime - lastSpawnTime b1 > spawnInterval CONFIG_triangles then
           let dotsToSpawn = min 3 (maxDots CONFIG_triangles - int (length (dots b1)));
               (b2, w2) = spawnLoop_tri (nat dotsToSpawn) (b1, w)
           in (b2\<lparr>lastSpawnTime := currentTime\<rparr>, w2)
         else (b1, w))"

subsection \<open>The fade curve\<close>

text \<open>
  \<^verbatim>\<open>age / dot.lifetime\<close>: a zero lifetime gives NaN or an infinity, and every later
  result is NaN; that is the value \<open>None\<close>.
\<close>

definition js_div :: "real \<Rightarrow> real \<Rightarrow> real option" where
  "js_div a b = (if b = 0 then None else Some (a / b))"

text \<open>\<^verbatim>\<open>calculateAlpha\<close> of the plain script.\<close>

definition calculateAlpha_dots :: "dot \<Rightarrow> real \<Rightarrow> real option" where
  "calculateAlpha_dots d currentTime =
     (let age = currentTime - birthTime d
      in case js_div age (lifetime d) of
           None \<Rightarrow> None
         | Some progress \<Rightarrow> Some (sin (progress * pi)))"

text \<open>
  \<^verbatim>\<open>calculateAlpha\<close> of the festive and of the triangle script (the same text);
  \<open>baseAlpha\<close> and \<open>twinkle\<close> are its two local constants.
\<close>

definition baseAlpha :: "'a dot_scheme \<Rightarrow> real \<Rightarrow> real option" where
  "baseAlpha d currentTime =
     (let age = currentTime - birthTime d
      in case js_div age (lifetime d) of
           None \<Rightarrow> None
         | Some progress \<Rightarrow> Some (sin (progress * pi)))"

definition twinkle :: "'a dot_scheme \<Rightarrow> real \<Rightarrow> real" where
  "twinkle d currentTime =
     (let age = currentTime - birthTime d in 1 + sin (age * 0.01) * 0.1)"

definition calculateAlpha :: "'a dot_scheme \<Rightarrow> real \<Rightarrow> real option" where
  "calculateAlpha d currentTime =
     (case baseAlpha d currentTime of
        None \<Rightarrow> None
      | Some a \<Rightarrow> Some (a * twinkle d currentTime))"

subsection \<open>Construction, the animation loop and destruction\<close>

text \<open>
  \<^verbatim>\<open>document.createElement('canvas')\<close> followed by
  \<^verbatim>\<open>document.body.insertBefore(this.canvas, document.body.firstChild)\<close>; a new canvas
  is 300 by 150.
\<close>

definition createCanvas :: "'d background \<times> world \<Rightarrow> 'd background \<times> world" where
  "createCanvas bw =
     (let (b, w) = bw; n = nextNode w
      in (b\<lparr>canvas := Some n, canvasWidth := 300, canvasHeight := 150\<rparr>,
          w\<lparr>nextNode := Suc n, body := n # body w\<rparr>))"

text \<open>
  \<^verbatim>\<open>setupWebGL\<close> compiles two shaders, links them into \<^verbatim>\<open>this.program\<close> and creates
  the buffers. Only the assignment of \<^verbatim>\<open>this.program\<close> is kept; the shaders are taken
  to compile whenever there is a context.
\<close>

definition setupWebGL :: "'d background \<times> world \<Rightarrow> 'd background \<times> world" where
  "setupWebGL bw = (let (b, w) = bw in (b\<lparr>program := True\<rparr>, w))"

text \<open>
  \<^verbatim>\<open>resize\<close>: \<^verbatim>\<open>window.devicePixelRatio || 1\<close> is 1 for a ratio of 0. The canvas
  attributes hold the products as they are; their conversion to integers and the
  call of \<^verbatim>\<open>gl.viewport\<close> are left out.
\<close>

definition resize :: "'d background \<times> world \<Rightarrow> 'd background \<times> world" where
  "resize bw =
     (let (b, w) = bw;
          dpr = (if devicePixelRatio w = 0 then 1 else devicePixelRatio w)
      in (b\<lparr>canvasWidth := innerWidth w * dpr, canvasHeight := innerHeight w * dpr\<rparr>, w))"

text \<open>\<^verbatim>\<open>window.addEventListener('resize', () => this.resize())\<close>\<close>

definition addResizeListener :: "'d background \<times> world \<Rightarrow> 'd background \<times> world" where
  "addResizeListener bw =
     (let (b, w) = bw in (b, w\<lparr>resizeListeners := resizeListeners w @ [canvas b]\<rparr>))"

definition animate :: "'d background \<times> world \<Rightarrow> 'd background \<times> world" where
  "animate bw =
     (let (b, w) = bw; (h, w1) = requestAnimationFrame w
      in (b\<lparr>animationId := Some h\<rparr>, w1))"

text \<open>
  The body of \<^verbatim>\<open>loop\<close> in \<^verbatim>\<open>animate\<close>: \<open>upd\<close> is the \<^verbatim>\<open>updateDots\<close> of the
  script; \<^verbatim>\<open>render\<close> only draws.
\<close>

definition loop ::
  "(real \<Rightarrow> 'd background \<times> world \<Rightarrow> 'd background \<times> world) \<Rightarrow>
   real \<Rightarrow> 'd background \<times> world \<Rightarrow> 'd background \<times> world" where
  "loop upd currentTime bw =
     (let (b1, w1) = upd currentTime bw; (h, w2) = requestAnimationFrame w1
      in (b1\<lparr>animationId := Some h\<rparr>, w2))"

definition init_dots :: "dot background \<times> world \<Rightarrow> dot background \<times> world" where
  "init_dots bw =
     (let (b1, w1) = createCanvas bw;
          b2 = b1\<lparr>gl := webgl w1\<rparr>
      in if \<not> gl b2 then
           (b2, w1\<lparr>console := console w1 @ [''WebGL not supported, polkadot effect disabled'']\<rparr>)
         else animate (addResizeListener (resize (setupWebGL (b2, w1)))))"

definition init_festive :: "dot background \<times> world \<Rightarrow> dot background \<times> world" where
  "init_festive bw =
     (let (b1, w1) = createCanvas bw;
          b2 = b1\<lparr>gl := webgl w1\<rparr>
      in if \<not> gl b2 then
           (b2, w1\<lparr>console := console w1 @ [''WebGL not supported, polkadot effect disabled'']\<rparr>)
         else animate (prePopulateDots (addResizeListener (resize (setupWebGL (b2, w1))))))"

definition init_tri :: "tdot background \<times> world \<Rightarrow> tdot background \<times> world" where
  "init_tri bw =
     (let (b1, w1) = createCanvas bw;
          b2 = b1\<lparr>gl := webgl w1\<rparr>
      in if \<not> gl b2 then
           (b2, w1\<lparr>console := console w1 @ [''WebGL not supported, triangle effect disabled'']\<rparr>)
         else animate (prePopulateDots_tri (addResizeListener (resize (setupWebGL (b2, w1))))))"

text \<open>The fields a constructor sets before it calls \<^verbatim>\<open>init\<close>.\<close>

definition blank :: "'d background" where
  "blank = \<lparr> canvas = None, canvasWidth = 0, canvasHeight = 0, gl = False, program = False,
             dots = [], lastSpawnTime = 0, animationId = None \<rparr>"

definition new_dots :: "world \<Rightarrow> dot background \<times> world" where
  "new_dots w = init_dots (blank, w)"

definition new_festive :: "world \<Rightarrow> dot background \<times> world" where
  "new_festive w = init_festive (blank, w)"

definition new_tri :: "world \<Rightarrow> tdot background \<times> world" where
  "new_tri w = init_tri (blank, w)"

text \<open>\<^verbatim>\<open>destroy\<close>, the same text in the three scripts. A handle of 0 is falsy.\<close>

definition destroy :: "'d background \<times> world \<Rightarrow> 'd background \<times> world" where
  "destroy bw =
     (let (b, w) = bw;
          w1 = (case animationId b of
                  Some h \<Rightarrow> if h \<noteq> 0 then cancelAnimationFrame h w else w
                | None \<Rightarrow> w);
          w2 = (case canvas b of
                  Some n \<Rightarrow> if n \<in> set (body w1) then w1\<lparr>body := removeAll n (body w1)\<rparr> else w1
                | None \<Rightarrow> w1)
      in (b, w2))"

text \<open>
  What the browser does to an instance: it runs the pending frame callback with a
  timestamp, or it changes the window size and calls the resize listeners. An
  instance is reachable from no other code, so these are the only calls it gets
  after its construction.
\<close>

datatype event = AnimationFrame real | Resize real real

fun deliver ::
  "(real \<Rightarrow> 'd background \<times> world \<Rightarrow> 'd background \<times> world) \<Rightarrow>
   event \<Rightarrow> 'd background \<times> world \<Rightarrow> 'd background \<times> world" where
  "deliver upd (AnimationFrame currentTime) bw =
     (let (b, w) = bw in
      case animationId b of
        None \<Rightarrow> (b, w)
      | Some h \<Rightarrow>
          if h \<in> set (frames w)
          then loop upd currentTime (b, w\<lparr>frames := removeAll h (frames w)\<rparr>)
          else (b, w))"
| "deliver upd (Resize iw ih) bw =
     (let (b, w) = bw;
          w1 = w\<lparr>innerWidth := iw, innerHeight := ih\<rparr>
      in if canvas b \<in> set (resizeListeners w1) then resize (b, w1) else (b, w1))"

fun run ::
  "(real \<Rightarrow> 'd background \<times> world \<Rightarrow> 'd background \<times> world) \<Rightarrow>
   event list \<Rightarrow> 'd background \<times> world \<Rightarrow> 'd background \<times> world" where
  "run upd [] bw = bw"
| "run upd (ev # evs) bw = run upd evs (deliver upd ev bw)"

subsection \<open>Sample worlds and particles\<close>

text \<open>
  A world whose random source always yields \<open>r\<close> and whose clock always reads
  \<open>t\<close>, with WebGL available or not, on an empty page.
\<close>

definition sampleWorld :: "real \<Rightarrow> real \<Rightarrow> bool \<Rightarrow> world" where
  "sampleWorld r t g =
     \<lparr> rnd = sconst r, perf = sconst t, webgl = g,
       innerWidth = 800, innerHeight = 600, devicePixelRatio = 2,
       body = [], nextNode = 0, resizeListeners = [], frames = [], frameCounter = 0,
       console = [] \<rparr>"

definition sampleDot :: "real \<Rightarrow> real \<Rightarrow> dot" where
  "sampleDot t lt =
     \<lparr> dot_x = 0, dot_y = 0, dot_size = 50, color = None, birthTime = t, lifetime = lt \<rparr>"

definition sampleTri :: "real \<Rightarrow> real \<Rightarrow> tdot" where
  "sampleTri t lt =
     \<lparr> dot_x = 1 / 2, dot_y = 0, dot_size = 75, color = None, birthTime = t, lifetime = lt,
       rotation = 0, rotationSpeed = 0 \<rparr>"

subsection \<open>What the platform guarantees\<close>

text \<open>
  \<^verbatim>\<open>Math.random()\<close> returns a number from 0 up to, but not including, 1.
\<close>

definition unitStream :: "real stream \<Rightarrow> bool" where
  "unitStream s = (\<forall>r \<in> sset s. 0 \<le> r \<and> r < 1)"

definition unitRandom :: "world \<Rightarrow> bool" where
  "unitRandom w = unitStream (rnd w)"

text \<open>
  The timestamp a frame callback receives is the time at which the browser began
  the frame, and the clock is monotonic: \<^verbatim>\<open>performance.now()\<close> read during or after
  a callback with timestamp \<open>t\<close> never reads less than \<open>t\<close>.
\<close>

definition clockNotBefore :: "real \<Rightarrow> world \<Rightarrow> bool" where
  "clockNotBefore t w = (\<forall>c \<in> sset (perf w). t \<le> c)"

text \<open>Every particle of a collection is alive at \<open>now\<close>.\<close>

definition allAlive :: "real \<Rightarrow> ('a dot_scheme) list \<Rightarrow> bool" where
  "allAlive now ds = (\<forall>d \<in> set ds. now - birthTime d < lifetime d)"

text \<open>
  The probability gate \<^verbatim>\<open>Math.random() < p\<close> declines on every attempt: no
  draw of the random source is below \<open>p\<close>.
\<close>

definition gateDeclines :: "real \<Rightarrow> world \<Rightarrow> bool" where
  "gateDeclines p w = (\<forall>r \<in> sset (rnd w). p \<le> r)"

text \<open>
  Where the triangle script means a triangle to be: the abscissa in one of the two
  side bands, from -1 up to (not including) -0.333 or from 0.333 to 1, and the
  ordinate from -1 to 1. The outer edges -1 and 1 are included.
\<close>

definition inSideBands :: "'a dot_scheme \<Rightarrow> bool" where
  "inSideBands d =
     (((- 1 \<le> dot_x d \<and> dot_x d < - 0.333) \<or> (0.333 \<le> dot_x d \<and> dot_x d \<le> 1))
      \<and> - 1 \<le> dot_y d \<and> dot_y d \<le> 1)"

text \<open>
  A world whose random source yields 1/2 three times, then 1/10000, then 1/2 for ever:
  in \<^verbatim>\<open>spawnDot\<close> of the triangle script the third draw sends \<^verbatim>\<open>getRandomX\<close> to the
  right band and the fourth is the offset into it.
\<close>

definition edgeWorld :: world where
  "edgeWorld = (sampleWorld (1 / 2) 1000 True)
     \<lparr>rnd := (1 / 2) ## (1 / 2) ## (1 / 2) ## (1 / 10000) ## sconst (1 / 2)\<rparr>"

text \<open>
  The counters of the page are ahead of what is in use: the node the next
  \<^verbatim>\<open>createElement\<close> makes is not in the page and has no listener yet, and the handle
  the next \<^verbatim>\<open>requestAnimationFrame\<close> returns is not pending.
\<close>

definition freshHandles :: "world \<Rightarrow> bool" where
  "freshHandles w =
     (nextNode w \<notin> set (body w) \<and> Some (nextNode w) \<notin> set (resizeListeners w)
      \<and> Suc (frameCounter w) \<notin> set (frames w))"

text \<open>
  A world with WebGL in which the page already holds node 5 and frame 7 is
  pending, and an instance that owns both.
\<close>

definition busyWorld :: world where
  "busyWorld = (sampleWorld (1 / 2) 1000 True)
     \<lparr>body := [5], nextNode := 6, frames := [7], frameCounter := 7\<rparr>"

definition busyInstance :: "dot background" where
  "busyInstance = blank\<lparr>canvas := Some 5, animationId := Some 7\<rparr>"

section \<open>Reading the random source and the clock\<close>

lemma fst_Math_random [simp]: "fst (Math_random w) = shd (rnd w)"
  by (simp add: Math_random_def)

lemma snd_Math_random [simp]: "snd (Math_random w) = w\<lparr>rnd := stl (rnd w)\<rparr>"
  by (simp add: Math_random_def)

lemma fst_performance_now [simp]: "fst (performance_now w) = shd (perf w)"
  by (simp add: performance_now_def)

lemma snd_performance_now [simp]: "snd (performance_now w) = w\<lparr>perf := stl (perf w)\<rparr>"
  by (simp add: performance_now_def)

lemma unitStream_shd: "unitStream s \<Longrightarrow> 0 \<le> shd s \<and> shd s < 1"
  by (simp add: unitStream_def shd_sset)

lemma unitStream_stl: "unitStream s \<Longrightarrow> unitStream (stl s)"
  by (auto simp: unitStream_def dest: stl_sset)

lemma unitRandom_simps [simp]:
  "unitRandom (w\<lparr>perf := p\<rparr>) = unitRandom w"
  "unitRandom (w\<lparr>rnd := s\<rparr>) = unitStream s"
  by (simp_all add: unitRandom_def)

lemma clockNotBefore_simps [simp]:
  "clockNotBefore t (w\<lparr>rnd := s\<rparr>) = clockNotBefore t w"
  by (simp add: clockNotBefore_def)

lemma clockNotBefore_shd: "clockNotBefore t w \<Longrightarrow> t \<le> shd (perf w)"
  by (simp add: clockNotBefore_def shd_sset)

lemma clockNotBefore_stl: "clockNotBefore t w \<Longrightarrow> clockNotBefore t (w\<lparr>perf := stl (perf w)\<rparr>)"
  by (auto simp: clockNotBefore_def dest: stl_sset)

lemma lifetime_positive:
  fixes r lo hi :: real
  assumes "0 \<le> r" "0 < lo" "lo \<le> hi"
  shows "0 < lo + r * (hi - lo)"
proof -
  have "0 \<le> r * (hi - lo)" using assms by simp
  then show ?thesis using assms(2) by linarith
qed

section \<open>The collection never exceeds its capacity\<close>

lemma spawnDot_bound:
  "int (length (dots (fst bw))) \<le> maxDots cfg \<Longrightarrow>
   int (length (dots (fst (spawnDot cfg bw)))) \<le> maxDots cfg"
  by (cases bw) (simp add: spawnDot_def Let_def split: prod.splits)

lemma spawnDot_tri_bound:
  "int (length (dots (fst bw))) \<le> maxDots CONFIG_triangles \<Longrightarrow>
   int (length (dots (fst (spawnDot_tri bw)))) \<le> maxDots CONFIG_triangles"
  by (cases bw) (simp add: spawnDot_tri_def Let_def split: prod.splits)

lemma spawnLoop_bound:
  "int (length (dots (fst bw))) \<le> maxDots CONFIG_festive \<Longrightarrow>
   int (length (dots (fst (spawnLoop n bw)))) \<le> maxDots CONFIG_festive"
proof (induction n arbitrary: bw)
  case 0
  then show ?case by simp
next
  case (Suc n)
  obtain b w where bw: "bw = (b, w)" by (cases bw)
  obtain r w1 where r: "Math_random w = (r, w1)" by (cases "Math_random w")
  let ?next = "if r < 0.85 then spawnDot CONFIG_festive (b, w1) else (b, w1)"
  have "int (length (dots (fst ?next))) \<le> maxDots CONFIG_festive"
    using Suc.prems bw spawnDot_bound [of "(b, w1)" CONFIG_festive] by simp
  then have "int (length (dots (fst (spawnLoop n ?next)))) \<le> maxDots CONFIG_festive"
    by (rule Suc.IH)
  then show ?case using bw r by simp
qed

lemma spawnLoop_tri_bound:
  "int (length (dots (fst bw))) \<le> maxDots CONFIG_triangles \<Longrightarrow>
   int (length (dots (fst (spawnLoop_tri n bw)))) \<le> maxDots CONFIG_triangles"
proof (induction n arbitrary: bw)
  case 0
  then show ?case by simp
next
  case (Suc n)
  obtain b w where bw: "bw = (b, w)" by (cases bw)
  obtain r w1 where r: "Math_random w = (r, w1)" by (cases "Math_random w")
  let ?next = "if r < 0.85 then spawnDot_tri (b, w1) else (b, w1)"
  have "int (length (dots (fst ?next))) \<le> maxDots CONFIG_triangles"
    using Suc.prems bw spawnDot_tri_bound [of "(b, w1)"] by simp
  then have "int (length (dots (fst (spawnLoop_tri n ?next)))) \<le> maxDots CONFIG_triangles"
    by (rule Suc.IH)
  then show ?case using bw r by simp
qed

lemma length_filter_bound:
  "int (length xs) \<le> m \<Longrightarrow> int (length (filter P xs)) \<le> m"
  using length_filter_le [of P xs] by linarith

lemma updateDots_dots_bound:
  assumes "int (length (dots (fst bw))) \<le> maxDots CONFIG_dots"
  shows "int (length (dots (fst (updateDots_dots now bw)))) \<le> maxDots CONFIG_dots"
proof -
  obtain b w where bw: "bw = (b, w)" by (cases bw)
  define b1 where "b1 = b\<lparr>dots := filter (\<lambda>d. now - birthTime d < lifetime d) (dots b)\<rparr>"
  obtain r w1 where r: "Math_random w = (r, w1)" by (cases "Math_random w")
  define res where "res = (if r < 0.7 then spawnDot CONFIG_dots (b1, w1) else (b1, w1))"
  have b1: "int (length (dots b1)) \<le> maxDots CONFIG_dots"
    using assms bw by (simp add: b1_def length_filter_bound)
  have res: "int (length (dots (fst res))) \<le> maxDots CONFIG_dots"
    using b1 spawnDot_bound [of "(b1, w1)" CONFIG_dots] by (simp add: res_def)
  have "updateDots_dots now bw =
          (if now - lastSpawnTime b1 > spawnInterval CONFIG_dots
           then ((fst res)\<lparr>lastSpawnTime := now\<rparr>, snd res) else (b1, w))"
    by (simp add: bw updateDots_dots_def b1_def res_def r Let_def case_prod_beta)
  then show ?thesis using b1 res by simp
qed

lemma updateDots_festive_bound:
  assumes "int (length (dots (fst bw))) \<le> maxDots CONFIG_festive"
  shows "int (length (dots (fst (updateDots_festive now bw)))) \<le> maxDots CONFIG_festive"
proof -
  obtain b w where bw: "bw = (b, w)" by (cases bw)
  define b1 where "b1 = b\<lparr>dots := filter (\<lambda>d. now - birthTime d < lifetime d) (dots b)\<rparr>"
  define res where
    "res = spawnLoop (nat (min 3 (maxDots CONFIG_festive - int (length (dots b1))))) (b1, w)"
  have b1: "int (length (dots b1)) \<le> maxDots CONFIG_festive"
    using assms bw by (simp add: b1_def length_filter_bound)
  have res: "int (length (dots (fst res))) \<le> maxDots CONFIG_festive"
    unfolding res_def using b1 by (intro spawnLoop_bound) simp
  have "updateDots_festive now bw =
          (if now - lastSpawnTime b1 > spawnInterval CONFIG_festive
           then ((fst res)\<lparr>lastSpawnTime := now\<rparr>, snd res) else (b1, w))"
    by (simp add: bw updateDots_festive_def b1_def res_def Let_def case_prod_beta)
  then show ?thesis using b1 res by simp
qed

lemma updateDots_tri_bound:
  assumes "int (length (dots (fst bw))) \<le> maxDots CONFIG_triangles"
  shows "int (length (dots (fst (updateDots_tri now bw)))) \<le> maxDots CONFIG_triangles"
proof -
  obtain b w where bw: "bw = (b, w)" by (cases bw)
  define b1 where
    "b1 = b\<lparr>dots := map (\<lambda>d. d\<lparr>rotation := rotation d + rotationSpeed d * 16\<rparr>)
                       (filter (\<lambda>d. now - birthTime d < lifetime d) (dots b))\<rparr>"
  define res where
    "res = spawnLoop_tri (nat (min 3 (maxDots CONFIG_triangles - int (length (dots b1))))) (b1, w)"
  have b1: "int (length (dots b1)) \<le> maxDots CONFIG_triangles"
    using assms bw by (simp add: b1_def length_filter_bound)
  have res: "int (length (dots (fst res))) \<le> maxDots CONFIG_triangles"
    unfolding res_def using b1 by (intro spawnLoop_tri_bound) simp
  have "updateDots_tri now bw =
          (if now - lastSpawnTime b1 > spawnInterval CONFIG_triangles
           then ((fst res)\<lparr>lastSpawnTime := now\<rparr>, snd res) else (b1, w))"
    by (simp add: bw updateDots_tri_def b1_def res_def Let_def case_prod_beta)
  then show ?thesis using b1 res by simp
qed


lemma prePopulateLoop_length:
  "length (dots (fst (prePopulateLoop cfg t n bw))) = length (dots (fst bw)) + n"
  by (induction n arbitrary: bw) (simp_all add: Let_def case_prod_beta)

lemma prePopulateLoop_tri_length:
  "length (dots (fst (prePopulateLoop_tri t n bw))) = length (dots (fst bw)) + n"
  by (induction n arbitrary: bw) (simp_all add: Let_def case_prod_beta)

lemma targetDots_festive: "nat \<lfloor>real_of_int (maxDots CONFIG_festive) * 0.7\<rfloor> = 6"
proof -
  have "\<lfloor>(63 / 10 :: real)\<rfloor> = 6" by linarith
  then show ?thesis by (simp add: CONFIG_festive_def)
qed

lemma targetDots_triangles: "nat \<lfloor>real_of_int (maxDots CONFIG_triangles) * 0.7\<rfloor> = 7"
  by (simp add: CONFIG_triangles_def)

lemma prePopulateDots_length:
  "length (dots (fst (prePopulateDots bw))) = length (dots (fst bw)) + 6"
  unfolding prePopulateDots_def Let_def case_prod_beta targetDots_festive
  by (simp add: prePopulateLoop_length)

lemma prePopulateDots_tri_length:
  "length (dots (fst (prePopulateDots_tri bw))) = length (dots (fst bw)) + 7"
  unfolding prePopulateDots_tri_def Let_def case_prod_beta targetDots_triangles
  by (simp add: prePopulateLoop_tri_length)

lemma dots_createCanvas [simp]: "dots (fst (createCanvas bw)) = dots (fst bw)"
  by (simp add: createCanvas_def Let_def case_prod_beta)

lemma dots_setupWebGL [simp]: "dots (fst (setupWebGL bw)) = dots (fst bw)"
  by (simp add: setupWebGL_def Let_def case_prod_beta)

lemma dots_resize [simp]: "dots (fst (resize bw)) = dots (fst bw)"
  by (simp add: resize_def Let_def case_prod_beta)

lemma dots_addResizeListener [simp]: "dots (fst (addResizeListener bw)) = dots (fst bw)"
  by (simp add: addResizeListener_def Let_def case_prod_beta)

lemma dots_animate [simp]: "dots (fst (animate bw)) = dots (fst bw)"
  by (simp add: animate_def Let_def case_prod_beta)

lemma dots_loop [simp]: "dots (fst (loop upd now bw)) = dots (fst (upd now bw))"
  by (simp add: loop_def Let_def case_prod_beta)

lemma new_dots_length: "length (dots (fst (new_dots w))) = 0"
  by (simp add: new_dots_def init_dots_def blank_def Let_def case_prod_beta)

lemma new_festive_length: "length (dots (fst (new_festive w))) = (if webgl w then 6 else 0)"
  by (simp add: new_festive_def init_festive_def blank_def Let_def case_prod_beta
        prePopulateDots_length createCanvas_def)

lemma new_tri_length: "length (dots (fst (new_tri w))) = (if webgl w then 7 else 0)"
  by (simp add: new_tri_def init_tri_def blank_def Let_def case_prod_beta
        prePopulateDots_tri_length createCanvas_def)

lemma deliver_dots_invariant:
  assumes "\<And>now bw. P (dots (fst bw)) \<Longrightarrow> P (dots (fst (upd now bw)))"
    and "P (dots (fst bw))"
  shows "P (dots (fst (deliver upd ev bw)))"
proof (cases ev)
  case (AnimationFrame now)
  obtain b w where bw: "bw = (b, w)" by (cases bw)
  show ?thesis
  proof (cases "animationId b")
    case None
    then show ?thesis using assms(2) bw AnimationFrame by simp
  next
    case (Some h)
    have "P (dots (fst (upd now (b, w\<lparr>frames := removeAll h (frames w)\<rparr>))))"
      using assms(2) bw by (intro assms(1)) simp
    then show ?thesis using assms(2) bw AnimationFrame Some by simp
  qed
next
  case (Resize iw ih)
  then show ?thesis using assms(2) by (simp add: Let_def case_prod_beta)
qed

lemma run_dots_invariant:
  assumes "\<And>now bw. P (dots (fst bw)) \<Longrightarrow> P (dots (fst (upd now bw)))"
    and "P (dots (fst bw))"
  shows "P (dots (fst (run upd evs bw)))"
  using assms(2)
proof (induction evs arbitrary: bw)
  case Nil
  then show ?case by simp
next
  case (Cons ev evs)
  have "P (dots (fst (deliver upd ev bw)))"
    using assms(1) Cons.prems by (rule deliver_dots_invariant)
  then show ?case using Cons.IH by simp
qed

text \<open>
  Claim C1. In each of the three scripts, whatever the world the instance is
  constructed in, whatever events the browser delivers to it afterwards and
  whatever the timestamp, a call of \<^verbatim>\<open>updateDots\<close> leaves at most \<^verbatim>\<open>CONFIG.maxDots\<close>
  particles in the collection, however many spawn attempts the call makes.
\<close>

theorem updateDots_capacity:
  "int (length (dots (fst (updateDots_dots now (run updateDots_dots evs (new_dots w))))))
     \<le> maxDots CONFIG_dots
   \<and> int (length (dots (fst (updateDots_festive now (run updateDots_festive evs (new_festive w))))))
     \<le> maxDots CONFIG_festive
   \<and> int (length (dots (fst (updateDots_tri now (run updateDots_tri evs (new_tri w))))))
     \<le> maxDots CONFIG_triangles"
proof (intro conjI)
  have "int (length (dots (fst (new_dots w)))) \<le> maxDots CONFIG_dots"
    by (simp add: new_dots_length CONFIG_dots_def)
  then have "int (length (dots (fst (run updateDots_dots evs (new_dots w))))) \<le> maxDots CONFIG_dots"
    by (rule run_dots_invariant [where P = "\<lambda>ds. int (length ds) \<le> maxDots CONFIG_dots", rotated])
       (rule updateDots_dots_bound)
  then show "int (length (dots (fst (updateDots_dots now (run updateDots_dots evs (new_dots w))))))
     \<le> maxDots CONFIG_dots"
    by (rule updateDots_dots_bound)
next
  have "int (length (dots (fst (new_festive w)))) \<le> maxDots CONFIG_festive"
    by (simp add: new_festive_length CONFIG_festive_def)
  then have "int (length (dots (fst (run updateDots_festive evs (new_festive w)))))
      \<le> maxDots CONFIG_festive"
    by (rule run_dots_invariant [where P = "\<lambda>ds. int (length ds) \<le> maxDots CONFIG_festive", rotated])
       (rule updateDots_festive_bound)
  then show "int (length (dots (fst (updateDots_festive now (run updateDots_festive evs (new_festive w))))))
     \<le> maxDots CONFIG_festive"
    by (rule updateDots_festive_bound)
next
  have "int (length (dots (fst (new_tri w)))) \<le> maxDots CONFIG_triangles"
    by (simp add: new_tri_length CONFIG_triangles_def)
  then have "int (length (dots (fst (run updateDots_tri evs (new_tri w)))))
      \<le> maxDots CONFIG_triangles"
    by (rule run_dots_invariant [where P = "\<lambda>ds. int (length ds) \<le> maxDots CONFIG_triangles", rotated])
       (rule updateDots_tri_bound)
  then show "int (length (dots (fst (updateDots_tri now (run updateDots_tri evs (new_tri w))))))
     \<le> maxDots CONFIG_triangles"
    by (rule updateDots_tri_bound)
qed

section \<open>Spawning into a full collection\<close>

text \<open>
  Claim C6. In each of the three scripts, \<^verbatim>\<open>spawnDot\<close> called on a collection that
  already holds at least \<^verbatim>\<open>CONFIG.maxDots\<close> particles changes nothing: the instance
  (size and contents of the collection included) and the world (no random number
  is drawn, the clock is not read) are as before.
\<close>

theorem spawnDot_full_noop:
  "(maxDots CONFIG_dots \<le> int (length (dots b)) \<longrightarrow> spawnDot CONFIG_dots (b, w) = (b, w))
   \<and> (maxDots CONFIG_festive \<le> int (length (dots b)) \<longrightarrow> spawnDot CONFIG_festive (b, w) = (b, w))
   \<and> (maxDots CONFIG_triangles \<le> int (length (dots bt)) \<longrightarrow> spawnDot_tri (bt, w) = (bt, w))"
  by (simp add: spawnDot_def spawnDot_tri_def)

theorem spawnDot_full_noop_witness:
  "maxDots CONFIG_dots \<le> int (length (dots (blank\<lparr>dots := replicate 2000 (sampleDot 0 3000)\<rparr>)))
   \<and> maxDots CONFIG_festive \<le> int (length (dots (blank\<lparr>dots := replicate 2000 (sampleDot 0 3000)\<rparr>)))
   \<and> maxDots CONFIG_triangles \<le> int (length (dots (blank\<lparr>dots := replicate 10 (sampleTri 0 5000)\<rparr>)))
   \<and> spawnDot CONFIG_dots (blank\<lparr>dots := replicate 2000 (sampleDot 0 3000)\<rparr>, sampleWorld (1/2) 1000 True)
       = (blank\<lparr>dots := replicate 2000 (sampleDot 0 3000)\<rparr>, sampleWorld (1/2) 1000 True)
   \<and> spawnDot CONFIG_festive (blank\<lparr>dots := replicate 2000 (sampleDot 0 3000)\<rparr>, sampleWorld (1/2) 1000 True)
       = (blank\<lparr>dots := replicate 2000 (sampleDot 0 3000)\<rparr>, sampleWorld (1/2) 1000 True)
   \<and> spawnDot_tri (blank\<lparr>dots := replicate 10 (sampleTri 0 5000)\<rparr>, sampleWorld (1/2) 1000 True)
       = (blank\<lparr>dots := replicate 10 (sampleTri 0 5000)\<rparr>, sampleWorld (1/2) 1000 True)"
  using spawnDot_full_noop [of "blank\<lparr>dots := replicate 2000 (sampleDot 0 3000)\<rparr>"
      "sampleWorld (1/2) 1000 True" "blank\<lparr>dots := replicate 10 (sampleTri 0 5000)\<rparr>"]
  by (simp add: CONFIG_dots_def CONFIG_festive_def CONFIG_triangles_def blank_def)

section \<open>Expired particles are purged\<close>

lemma spawnDot_alive:
  assumes "unitRandom w" "clockNotBefore now w" "allAlive now (dots b)"
    and "0 < minLifetime cfg" "minLifetime cfg \<le> maxLifetime cfg"
  shows "unitRandom (snd (spawnDot cfg (b, w)))
       \<and> clockNotBefore now (snd (spawnDot cfg (b, w)))
       \<and> allAlive now (dots (fst (spawnDot cfg (b, w))))"
proof (cases "maxDots cfg \<le> int (length (dots b))")
  case True
  then show ?thesis using assms by (simp add: spawnDot_def)
next
  case False
  define s where "s = rnd w"
  have u: "unitStream s" using assms(1) by (simp add: unitRandom_def s_def)
  have u5: "unitStream (stl (stl (stl (stl (stl s)))))"
    using u by (intro unitStream_stl)
  have r2: "0 \<le> shd (stl s)" using u unitStream_stl unitStream_shd by blast
  have lt: "0 < minLifetime cfg + shd (stl s) * (maxLifetime cfg - minLifetime cfg)"
    using r2 assms(4,5) by (rule lifetime_positive)
  have t: "now \<le> shd (perf w)" using assms(2) by (rule clockNotBefore_shd)
  have c: "clockNotBefore now (w\<lparr>perf := stl (perf w)\<rparr>)" using assms(2) by (rule clockNotBefore_stl)
  show ?thesis
    using False assms(3) u5 lt t c
    by (simp add: spawnDot_def Let_def case_prod_beta allAlive_def s_def clockNotBefore_def)
qed


lemma spawnDot_tri_alive:
  assumes "unitRandom w" "clockNotBefore now w" "allAlive now (dots b)"
  shows "unitRandom (snd (spawnDot_tri (b, w)))
       \<and> clockNotBefore now (snd (spawnDot_tri (b, w)))
       \<and> allAlive now (dots (fst (spawnDot_tri (b, w))))"
proof (cases "maxDots CONFIG_triangles \<le> int (length (dots b))")
  case True
  then show ?thesis using assms by (simp add: spawnDot_tri_def)
next
  case False
  define s where "s = rnd w"
  have u: "unitStream s" using assms(1) by (simp add: unitRandom_def s_def)
  have u8: "unitStream (stl (stl (stl (stl (stl (stl (stl (stl s))))))))"
    using u by (intro unitStream_stl)
  have r2: "0 \<le> shd (stl s)" using u unitStream_stl unitStream_shd by blast
  have lt: "0 < minLifetime CONFIG_triangles
              + shd (stl s) * (maxLifetime CONFIG_triangles - minLifetime CONFIG_triangles)"
    using r2 by (intro lifetime_positive) (simp_all add: CONFIG_triangles_def)
  have t: "now \<le> shd (perf w)" using assms(2) by (rule clockNotBefore_shd)
  have c: "clockNotBefore now (w\<lparr>perf := stl (perf w)\<rparr>)" using assms(2) by (rule clockNotBefore_stl)
  show ?thesis
    using False assms(3) u8 lt t c
    by (simp add: spawnDot_tri_def getRandomX_def Let_def case_prod_beta allAlive_def s_def
          clockNotBefore_def)
qed

lemma spawnLoop_alive:
  assumes "unitRandom (snd bw)" "clockNotBefore now (snd bw)" "allAlive now (dots (fst bw))"
  shows "unitRandom (snd (spawnLoop n bw))
       \<and> clockNotBefore now (snd (spawnLoop n bw))
       \<and> allAlive now (dots (fst (spawnLoop n bw)))"
  using assms
proof (induction n arbitrary: bw)
  case 0
  then show ?case by simp
next
  case (Suc n)
  obtain b w where bw: "bw = (b, w)" by (cases bw)
  define w1 where "w1 = w\<lparr>rnd := stl (rnd w)\<rparr>"
  define nxt where "nxt = (if shd (rnd w) < 0.85 then spawnDot CONFIG_festive (b, w1) else (b, w1))"
  have w1: "unitRandom w1" "clockNotBefore now w1"
    using Suc.prems bw by (simp_all add: w1_def unitRandom_def unitStream_stl)
  have "unitRandom (snd nxt) \<and> clockNotBefore now (snd nxt) \<and> allAlive now (dots (fst nxt))"
  proof (cases "shd (rnd w) < 0.85")
    case True
    have "0 < minLifetime CONFIG_festive" "minLifetime CONFIG_festive \<le> maxLifetime CONFIG_festive"
      by (simp_all add: CONFIG_festive_def)
    with w1 Suc.prems(3) bw True show ?thesis
      using spawnDot_alive [of w1 now b CONFIG_festive] by (simp add: nxt_def)
  next
    case False
    then show ?thesis using w1 Suc.prems(3) bw by (simp add: nxt_def)
  qed
  then have "unitRandom (snd (spawnLoop n nxt)) \<and> clockNotBefore now (snd (spawnLoop n nxt))
       \<and> allAlive now (dots (fst (spawnLoop n nxt)))"
    using Suc.IH [of nxt] by blast
  moreover have "spawnLoop (Suc n) bw = spawnLoop n nxt"
    by (simp add: bw nxt_def w1_def Let_def case_prod_beta)
  ultimately show ?case by simp
qed

lemma spawnLoop_tri_alive:
  assumes "unitRandom (snd bw)" "clockNotBefore now (snd bw)" "allAlive now (dots (fst bw))"
  shows "unitRandom (snd (spawnLoop_tri n bw))
       \<and> clockNotBefore now (snd (spawnLoop_tri n bw))
       \<and> allAlive now (dots (fst (spawnLoop_tri n bw)))"
  using assms
proof (induction n arbitrary: bw)
  case 0
  then show ?case by simp
next
  case (Suc n)
  obtain b w where bw: "bw = (b, w)" by (cases bw)
  define w1 where "w1 = w\<lparr>rnd := stl (rnd w)\<rparr>"
  define nxt where "nxt = (if shd (rnd w) < 0.85 then spawnDot_tri (b, w1) else (b, w1))"
  have w1: "unitRandom w1" "clockNotBefore now w1"
    using Suc.prems bw by (simp_all add: w1_def unitRandom_def unitStream_stl)
  have "unitRandom (snd nxt) \<and> clockNotBefore now (snd nxt) \<and> allAlive now (dots (fst nxt))"
  proof (cases "shd (rnd w) < 0.85")
    case True
    with w1 Suc.prems(3) bw show ?thesis
      using spawnDot_tri_alive [of w1 now b] by (simp add: nxt_def)
  next
    case False
    then show ?thesis using w1 Suc.prems(3) bw by (simp add: nxt_def)
  qed
  then have "unitRandom (snd (spawnLoop_tri n nxt)) \<and> clockNotBefore now (snd (spawnLoop_tri n nxt))
       \<and> allAlive now (dots (fst (spawnLoop_tri n nxt)))"
    using Suc.IH [of nxt] by blast
  moreover have "spawnLoop_tri (Suc n) bw = spawnLoop_tri n nxt"
    by (simp add: bw nxt_def w1_def Let_def case_prod_beta)
  ultimately show ?case by simp
qed

lemma updateDots_dots_alive:
  assumes "unitRandom w" "clockNotBefore now w"
  shows "allAlive now (dots (fst (updateDots_dots now (b, w))))"
proof -
  define b1 where "b1 = b\<lparr>dots := filter (\<lambda>d. now - birthTime d < lifetime d) (dots b)\<rparr>"
  define w1 where "w1 = w\<lparr>rnd := stl (rnd w)\<rparr>"
  define res where "res = (if shd (rnd w) < 0.7 then spawnDot CONFIG_dots (b1, w1) else (b1, w1))"
  have b1: "allAlive now (dots b1)" by (simp add: b1_def allAlive_def)
  have w1: "unitRandom w1" "clockNotBefore now w1"
    using assms by (simp_all add: w1_def unitRandom_def unitStream_stl)
  have "0 < minLifetime CONFIG_dots" "minLifetime CONFIG_dots \<le> maxLifetime CONFIG_dots"
    by (simp_all add: CONFIG_dots_def)
  then have res: "allAlive now (dots (fst res))"
    using spawnDot_alive [of w1 now b1 CONFIG_dots] w1 b1 by (simp add: res_def)
  have "updateDots_dots now (b, w) =
          (if now - lastSpawnTime b1 > spawnInterval CONFIG_dots
           then ((fst res)\<lparr>lastSpawnTime := now\<rparr>, snd res) else (b1, w))"
    by (simp add: updateDots_dots_def b1_def res_def w1_def Let_def case_prod_beta)
  then show ?thesis using b1 res by simp
qed

lemma updateDots_festive_alive:
  assumes "unitRandom w" "clockNotBefore now w"
  shows "allAlive now (dots (fst (updateDots_festive now (b, w))))"
proof -
  define b1 where "b1 = b\<lparr>dots := filter (\<lambda>d. now - birthTime d < lifetime d) (dots b)\<rparr>"
  define res where
    "res = spawnLoop (nat (min 3 (maxDots CONFIG_festive - int (length (dots b1))))) (b1, w)"
  have b1: "allAlive now (dots b1)" by (simp add: b1_def allAlive_def)
  have res: "allAlive now (dots (fst res))"
    unfolding res_def using spawnLoop_alive [of "(b1, w)" now] assms b1 by simp
  have "updateDots_festive now (b, w) =
          (if now - lastSpawnTime b1 > spawnInterval CONFIG_festive
           then ((fst res)\<lparr>lastSpawnTime := now\<rparr>, snd res) else (b1, w))"
    by (simp add: updateDots_festive_def b1_def res_def Let_def case_prod_beta)
  then show ?thesis using b1 res by simp
qed

lemma updateDots_tri_alive:
  assumes "unitRandom w" "clockNotBefore now w"
  shows "allAlive now (dots (fst (updateDots_tri now (b, w))))"
proof -
  define b1 where
    "b1 = b\<lparr>dots := map (\<lambda>d. d\<lparr>rotation := rotation d + rotationSpeed d * 16\<rparr>)
                       (filter (\<lambda>d. now - birthTime d < lifetime d) (dots b))\<rparr>"
  define res where
    "res = spawnLoop_tri (nat (min 3 (maxDots CONFIG_triangles - int (length (dots b1))))) (b1, w)"
  have b1: "allAlive now (dots b1)" by (simp add: b1_def allAlive_def)
  have res: "allAlive now (dots (fst res))"
    unfolding res_def using spawnLoop_tri_alive [of "(b1, w)" now] assms b1 by simp
  have "updateDots_tri now (b, w) =
          (if now - lastSpawnTime b1 > spawnInterval CONFIG_triangles
           then ((fst res)\<lparr>lastSpawnTime := now\<rparr>, snd res) else (b1, w))"
    by (simp add: updateDots_tri_def b1_def res_def Let_def case_prod_beta)
  then show ?thesis using b1 res by simp
qed

text \<open>
  Claim C2. In each of the three scripts, after \<^verbatim>\<open>updateDots(now)\<close> every particle
  of the collection has an age \<open>now - birthTime\<close> strictly below its lifetime, and a
  particle of the collection before the call whose age had reached its lifetime is
  no longer in it. The particles spawned by the call are stamped with
  \<^verbatim>\<open>performance.now()\<close>, not with \<open>now\<close>, so the statement rests on what the platform
  guarantees: random numbers in [0, 1) (a positive lifetime) and a clock that does
  not read less than the timestamp of the frame.
\<close>

theorem updateDots_retains_no_expired:
  assumes "unitRandom w" and "clockNotBefore now w"
  shows "(\<forall>d \<in> set (dots (fst (updateDots_dots now (b, w)))). now - birthTime d < lifetime d)
       \<and> (\<forall>d \<in> set (dots b). lifetime d \<le> now - birthTime d
             \<longrightarrow> d \<notin> set (dots (fst (updateDots_dots now (b, w)))))
       \<and> (\<forall>d \<in> set (dots (fst (updateDots_festive now (b, w)))). now - birthTime d < lifetime d)
       \<and> (\<forall>d \<in> set (dots b). lifetime d \<le> now - birthTime d
             \<longrightarrow> d \<notin> set (dots (fst (updateDots_festive now (b, w)))))
       \<and> (\<forall>d \<in> set (dots (fst (updateDots_tri now (bt, w)))). now - birthTime d < lifetime d)
       \<and> (\<forall>d \<in> set (dots bt). lifetime d \<le> now - birthTime d
             \<longrightarrow> d \<notin> set (dots (fst (updateDots_tri now (bt, w)))))"
proof -
  have a1: "\<forall>d \<in> set (dots (fst (updateDots_dots now (b, w)))). now - birthTime d < lifetime d"
    using updateDots_dots_alive [OF assms, of b] by (simp add: allAlive_def)
  have a2: "\<forall>d \<in> set (dots (fst (updateDots_festive now (b, w)))). now - birthTime d < lifetime d"
    using updateDots_festive_alive [OF assms, of b] by (simp add: allAlive_def)
  have a3: "\<forall>d \<in> set (dots (fst (updateDots_tri now (bt, w)))). now - birthTime d < lifetime d"
    using updateDots_tri_alive [OF assms, of bt] by (simp add: allAlive_def)
  have x1: "\<forall>d \<in> set (dots b). lifetime d \<le> now - birthTime d
             \<longrightarrow> d \<notin> set (dots (fst (updateDots_dots now (b, w))))"
    using a1 by fastforce
  have x2: "\<forall>d \<in> set (dots b). lifetime d \<le> now - birthTime d
             \<longrightarrow> d \<notin> set (dots (fst (updateDots_festive now (b, w))))"
    using a2 by fastforce
  have x3: "\<forall>d \<in> set (dots bt). lifetime d \<le> now - birthTime d
             \<longrightarrow> d \<notin> set (dots (fst (updateDots_tri now (bt, w))))"
    using a3 by fastforce
  show ?thesis using a1 x1 a2 x2 a3 x3 by blast
qed


theorem updateDots_retains_no_expired_witness:
  "unitRandom (sampleWorld (1/2) 5000 True)
   \<and> clockNotBefore 5000 (sampleWorld (1/2) 5000 True)
   \<and> sampleDot 0 3000 \<in> set (dots (blank\<lparr>dots := [sampleDot 0 3000, sampleDot 4000 3000]\<rparr>))
   \<and> lifetime (sampleDot 0 3000) \<le> 5000 - birthTime (sampleDot 0 3000)
   \<and> sampleDot 0 3000 \<notin> set (dots (fst (updateDots_dots 5000
          (blank\<lparr>dots := [sampleDot 0 3000, sampleDot 4000 3000]\<rparr>, sampleWorld (1/2) 5000 True))))
   \<and> sampleDot 0 3000 \<notin> set (dots (fst (updateDots_festive 5000
          (blank\<lparr>dots := [sampleDot 0 3000, sampleDot 4000 3000]\<rparr>, sampleWorld (1/2) 5000 True))))
   \<and> sampleTri 0 5000 \<in> set (dots (blank\<lparr>dots := [sampleTri 0 5000, sampleTri 4000 5000]\<rparr>))
   \<and> lifetime (sampleTri 0 5000) \<le> 5000 - birthTime (sampleTri 0 5000)
   \<and> sampleTri 0 5000 \<notin> set (dots (fst (updateDots_tri 5000
          (blank\<lparr>dots := [sampleTri 0 5000, sampleTri 4000 5000]\<rparr>, sampleWorld (1/2) 5000 True))))"
proof -
  have h1: "unitRandom (sampleWorld (1/2) 5000 True)"
    by (simp add: unitRandom_def unitStream_def sampleWorld_def)
  have h2: "clockNotBefore 5000 (sampleWorld (1/2) 5000 True)"
    by (simp add: clockNotBefore_def sampleWorld_def)
  show ?thesis
    using h1 h2
      updateDots_retains_no_expired [OF h1 h2,
        of "blank\<lparr>dots := [sampleDot 0 3000, sampleDot 4000 3000]\<rparr>"
           "blank\<lparr>dots := [sampleTri 0 5000, sampleTri 4000 5000]\<rparr>"]
    by (simp add: sampleDot_def sampleTri_def blank_def)
qed

section \<open>The spawn clock\<close>

lemma gateDeclines_shd: "gateDeclines p w \<Longrightarrow> p \<le> shd (rnd w)"
  by (simp add: gateDeclines_def shd_sset)

lemma gateDeclines_stl: "gateDeclines p w \<Longrightarrow> gateDeclines p (w\<lparr>rnd := stl (rnd w)\<rparr>)"
  by (auto simp: gateDeclines_def dest: stl_sset)

lemma spawnLoop_declined:
  "gateDeclines 0.85 (snd bw) \<Longrightarrow> fst (spawnLoop n bw) = fst bw"
proof (induction n arbitrary: bw)
  case 0
  then show ?case by simp
next
  case (Suc n)
  obtain b w where bw: "bw = (b, w)" by (cases bw)
  have r: "\<not> shd (rnd w) < 0.85"
    using Suc.prems bw gateDeclines_shd [of "0.85" w] by simp
  have "gateDeclines 0.85 (w\<lparr>rnd := stl (rnd w)\<rparr>)"
    using Suc.prems bw by (simp add: gateDeclines_stl)
  then have "fst (spawnLoop n (b, w\<lparr>rnd := stl (rnd w)\<rparr>)) = b"
    using Suc.IH [of "(b, w\<lparr>rnd := stl (rnd w)\<rparr>)"] by simp
  then show ?case using r bw by (simp add: Let_def case_prod_beta)
qed

lemma spawnLoop_tri_declined:
  "gateDeclines 0.85 (snd bw) \<Longrightarrow> fst (spawnLoop_tri n bw) = fst bw"
proof (induction n arbitrary: bw)
  case 0
  then show ?case by simp
next
  case (Suc n)
  obtain b w where bw: "bw = (b, w)" by (cases bw)
  have r: "\<not> shd (rnd w) < 0.85"
    using Suc.prems bw gateDeclines_shd [of "0.85" w] by simp
  have "gateDeclines 0.85 (w\<lparr>rnd := stl (rnd w)\<rparr>)"
    using Suc.prems bw by (simp add: gateDeclines_stl)
  then have "fst (spawnLoop_tri n (b, w\<lparr>rnd := stl (rnd w)\<rparr>)) = b"
    using Suc.IH [of "(b, w\<lparr>rnd := stl (rnd w)\<rparr>)"] by simp
  then show ?case using r bw by (simp add: Let_def case_prod_beta)
qed

lemma updateDots_dots_lastSpawnTime:
  "spawnInterval CONFIG_dots < now - lastSpawnTime b \<Longrightarrow>
   lastSpawnTime (fst (updateDots_dots now (b, w))) = now"
  by (simp add: updateDots_dots_def Let_def case_prod_beta)

lemma updateDots_festive_lastSpawnTime:
  "spawnInterval CONFIG_festive < now - lastSpawnTime b \<Longrightarrow>
   lastSpawnTime (fst (updateDots_festive now (b, w))) = now"
  by (simp add: updateDots_festive_def Let_def case_prod_beta)

lemma updateDots_tri_lastSpawnTime:
  "spawnInterval CONFIG_triangles < now - lastSpawnTime b \<Longrightarrow>
   lastSpawnTime (fst (updateDots_tri now (b, w))) = now"
  by (simp add: updateDots_tri_def Let_def case_prod_beta)

lemma updateDots_dots_declined:
  assumes "gateDeclines 0.7 w"
  shows "dots (fst (updateDots_dots now (b, w)))
           = filter (\<lambda>d. now - birthTime d < lifetime d) (dots b)"
proof -
  have "\<not> shd (rnd w) < 0.7" using gateDeclines_shd [OF assms] by simp
  then show ?thesis by (simp add: updateDots_dots_def Let_def case_prod_beta)
qed

lemma updateDots_festive_declined:
  assumes "gateDeclines 0.85 w"
  shows "dots (fst (updateDots_festive now (b, w)))
           = filter (\<lambda>d. now - birthTime d < lifetime d) (dots b)"
  using assms by (simp add: updateDots_festive_def Let_def case_prod_beta spawnLoop_declined)

lemma updateDots_tri_declined:
  assumes "gateDeclines 0.85 w"
  shows "dots (fst (updateDots_tri now (b, w)))
           = map (\<lambda>d. d\<lparr>rotation := rotation d + rotationSpeed d * 16\<rparr>)
               (filter (\<lambda>d. now - birthTime d < lifetime d) (dots b))"
  using assms by (simp add: updateDots_tri_def Let_def case_prod_beta spawnLoop_tri_declined)

text \<open>
  Claim C5, as stated, says that the size of the collection is unchanged by a call
  of \<^verbatim>\<open>updateDots\<close> in which the gate declines every attempt. The call purges the
  expired particles first: in the plain script, with the interval elapsed and the
  gate declining, a collection of one expired particle becomes empty, while the
  last-spawn timestamp advances to the timestamp of the call.
\<close>

theorem declined_gate_size_counterexample:
  "spawnInterval CONFIG_dots < 5000 - lastSpawnTime (blank\<lparr>dots := [sampleDot 0 3000]\<rparr>)
   \<and> gateDeclines 0.7 (sampleWorld (9/10) 5000 True)
   \<and> length (dots (blank\<lparr>dots := [sampleDot 0 3000]\<rparr> :: dot background)) = 1
   \<and> length (dots (fst (updateDots_dots 5000
        (blank\<lparr>dots := [sampleDot 0 3000]\<rparr>, sampleWorld (9/10) 5000 True)))) = 0
   \<and> lastSpawnTime (fst (updateDots_dots 5000
        (blank\<lparr>dots := [sampleDot 0 3000]\<rparr>, sampleWorld (9/10) 5000 True))) = 5000"
  by (simp add: updateDots_dots_def Let_def case_prod_beta blank_def sampleDot_def
        sampleWorld_def gateDeclines_def CONFIG_dots_def)

text \<open>
  Claim C5, amended. In each of the three scripts, a call of \<^verbatim>\<open>updateDots(now)\<close>
  in which more than \<^verbatim>\<open>CONFIG.spawnInterval\<close> has elapsed since the last spawn
  attempt sets \<^verbatim>\<open>lastSpawnTime\<close> to \<open>now\<close>, whatever the gate decides. If the gate
  declines on every attempt, the call adds no particle: the collection is the one
  before the call without its expired particles (in the triangle script, with the
  rotation of the others advanced). So an empty collection stays empty, and a
  collection with no expired particle keeps its size.
\<close>

theorem declined_gate_advances_clock:
  "(spawnInterval CONFIG_dots < now - lastSpawnTime b
      \<longrightarrow> lastSpawnTime (fst (updateDots_dots now (b, w))) = now)
   \<and> (gateDeclines 0.7 w
      \<longrightarrow> dots (fst (updateDots_dots now (b, w)))
            = filter (\<lambda>d. now - birthTime d < lifetime d) (dots b))
   \<and> (spawnInterval CONFIG_festive < now - lastSpawnTime b
      \<longrightarrow> lastSpawnTime (fst (updateDots_festive now (b, w))) = now)
   \<and> (gateDeclines 0.85 w
      \<longrightarrow> dots (fst (updateDots_festive now (b, w)))
            = filter (\<lambda>d. now - birthTime d < lifetime d) (dots b))
   \<and> (spawnInterval CONFIG_triangles < now - lastSpawnTime bt
      \<longrightarrow> lastSpawnTime (fst (updateDots_tri now (bt, w))) = now)
   \<and> (gateDeclines 0.85 w
      \<longrightarrow> dots (fst (updateDots_tri now (bt, w)))
            = map (\<lambda>d. d\<lparr>rotation := rotation d + rotationSpeed d * 16\<rparr>)
                (filter (\<lambda>d. now - birthTime d < lifetime d) (dots bt)))"
  by (simp add: updateDots_dots_lastSpawnTime updateDots_festive_lastSpawnTime
        updateDots_tri_lastSpawnTime updateDots_dots_declined updateDots_festive_declined
        updateDots_tri_declined)

theorem declined_gate_advances_clock_witness:
  "spawnInterval CONFIG_dots < 5000 - lastSpawnTime (blank\<lparr>dots := [sampleDot 4000 3000]\<rparr>)
   \<and> spawnInterval CONFIG_festive < 5000 - lastSpawnTime (blank\<lparr>dots := [sampleDot 4000 3000]\<rparr>)
   \<and> spawnInterval CONFIG_triangles < 5000 - lastSpawnTime (blank\<lparr>dots := [sampleTri 4000 5000]\<rparr>)
   \<and> gateDeclines 0.7 (sampleWorld (9/10) 5000 True)
   \<and> gateDeclines 0.85 (sampleWorld (9/10) 5000 True)
   \<and> lastSpawnTime (fst (updateDots_dots 5000
        (blank\<lparr>dots := [sampleDot 4000 3000]\<rparr>, sampleWorld (9/10) 5000 True))) = 5000
   \<and> dots (fst (updateDots_dots 5000
        (blank\<lparr>dots := [sampleDot 4000 3000]\<rparr>, sampleWorld (9/10) 5000 True))) = [sampleDot 4000 3000]
   \<and> lastSpawnTime (fst (updateDots_festive 5000
        (blank\<lparr>dots := [sampleDot 4000 3000]\<rparr>, sampleWorld (9/10) 5000 True))) = 5000
   \<and> dots (fst (updateDots_festive 5000
        (blank\<lparr>dots := [sampleDot 4000 3000]\<rparr>, sampleWorld (9/10) 5000 True))) = [sampleDot 4000 3000]
   \<and> lastSpawnTime (fst (updateDots_tri 5000
        (blank\<lparr>dots := [sampleTri 4000 5000]\<rparr>, sampleWorld (9/10) 5000 True))) = 5000
   \<and> dots (fst (updateDots_tri 5000
        (blank\<lparr>dots := [sampleTri 4000 5000]\<rparr>, sampleWorld (9/10) 5000 True))) = [sampleTri 4000 5000]"
proof -
  have g: "gateDeclines 0.7 (sampleWorld (9/10) 5000 True)"
          "gateDeclines 0.85 (sampleWorld (9/10) 5000 True)"
    by (simp_all add: gateDeclines_def sampleWorld_def)
  have i: "spawnInterval CONFIG_dots < 5000 - lastSpawnTime (blank\<lparr>dots := [sampleDot 4000 3000]\<rparr>)"
          "spawnInterval CONFIG_festive < 5000 - lastSpawnTime (blank\<lparr>dots := [sampleDot 4000 3000]\<rparr>)"
          "spawnInterval CONFIG_triangles < 5000 - lastSpawnTime (blank\<lparr>dots := [sampleTri 4000 5000]\<rparr>)"
    by (simp_all add: blank_def CONFIG_dots_def CONFIG_festive_def CONFIG_triangles_def)
  show ?thesis
    using g i
      declined_gate_advances_clock [of 5000 "blank\<lparr>dots := [sampleDot 4000 3000]\<rparr>"
        "sampleWorld (9/10) 5000 True" "blank\<lparr>dots := [sampleTri 4000 5000]\<rparr>"]
    by (simp add: blank_def sampleDot_def sampleTri_def)
qed

section \<open>Triangles keep to the side bands\<close>

lemma getRandomX_range:
  assumes "unitStream (rnd w)"
  shows "(- 1 \<le> fst (getRandomX w) \<and> fst (getRandomX w) < - 0.333)
       \<or> (0.333 \<le> fst (getRandomX w) \<and> fst (getRandomX w) \<le> 1)"
proof -
  have r2: "0 \<le> shd (stl (rnd w))" "shd (stl (rnd w)) < 1"
    using assms unitStream_stl unitStream_shd by blast+
  show ?thesis
  proof (cases "shd (rnd w) < 0.5")
    case True
    then have "fst (getRandomX w) = - 1 + shd (stl (rnd w)) * 0.667"
      by (simp add: getRandomX_def Let_def case_prod_beta)
    then show ?thesis using r2 by simp
  next
    case False
    then have "fst (getRandomX w) = 0.333 + shd (stl (rnd w)) * 0.667"
      by (simp add: getRandomX_def Let_def case_prod_beta)
    then show ?thesis using r2 by simp
  qed
qed

lemma snd_getRandomX [simp]: "snd (getRandomX w) = w\<lparr>rnd := stl (stl (rnd w))\<rparr>"
  by (simp add: getRandomX_def Let_def case_prod_beta)


lemma spawnDot_tri_new:
  assumes "unitRandom w"
  shows "\<exists>ns. dots (fst (spawnDot_tri (b, w))) = dots b @ ns \<and> (\<forall>d \<in> set ns. inSideBands d)"
proof (cases "maxDots CONFIG_triangles \<le> int (length (dots b))")
  case True
  then show ?thesis by (simp add: spawnDot_tri_def)
next
  case False
  define s where "s = rnd w"
  define w2 where "w2 = w\<lparr>rnd := stl (stl s)\<rparr>"
  have u: "unitStream s" using assms by (simp add: unitRandom_def s_def)
  have u2: "unitStream (rnd w2)" using u by (simp add: w2_def unitStream_stl)
  have x: "(- 1 \<le> fst (getRandomX w2) \<and> fst (getRandomX w2) < - 0.333)
         \<or> (0.333 \<le> fst (getRandomX w2) \<and> fst (getRandomX w2) \<le> 1)"
    using u2 by (rule getRandomX_range)
  have "unitStream (stl (stl (stl (stl s))))" using u by (intro unitStream_stl)
  then have y: "0 \<le> shd (stl (stl (stl (stl s))))" "shd (stl (stl (stl (stl s)))) < 1"
    using unitStream_shd by blast+
  have "dots (fst (spawnDot_tri (b, w))) = dots b @
          [\<lparr> dot_x = fst (getRandomX w2), dot_y = shd (stl (stl (stl (stl s)))) * 2 - 1,
             dot_size = minSize CONFIG_triangles + shd (stl (stl (stl (stl (stl s)))))
                * (maxSize CONFIG_triangles - minSize CONFIG_triangles),
             color = pickColor CONFIG_triangles (shd s), birthTime = shd (perf w),
             lifetime = minLifetime CONFIG_triangles
                + shd (stl s) * (maxLifetime CONFIG_triangles - minLifetime CONFIG_triangles),
             rotation = shd (stl (stl (stl (stl (stl (stl s)))))) * pi * 2,
             rotationSpeed = (shd (stl (stl (stl (stl (stl (stl (stl s))))))) - 0.5) * 0.002 \<rparr>]"
    using False by (simp add: spawnDot_tri_def Let_def case_prod_beta s_def w2_def)
  moreover have "inSideBands
          \<lparr> dot_x = fst (getRandomX w2), dot_y = shd (stl (stl (stl (stl s)))) * 2 - 1,
             dot_size = minSize CONFIG_triangles + shd (stl (stl (stl (stl (stl s)))))
                * (maxSize CONFIG_triangles - minSize CONFIG_triangles),
             color = pickColor CONFIG_triangles (shd s), birthTime = shd (perf w),
             lifetime = minLifetime CONFIG_triangles
                + shd (stl s) * (maxLifetime CONFIG_triangles - minLifetime CONFIG_triangles),
             rotation = shd (stl (stl (stl (stl (stl (stl s)))))) * pi * 2,
             rotationSpeed = (shd (stl (stl (stl (stl (stl (stl (stl s))))))) - 0.5) * 0.002 \<rparr>"
    using x y by (simp add: inSideBands_def)
  ultimately show ?thesis by simp
qed

lemma prePopulateLoop_tri_new:
  assumes "unitRandom (snd bw)"
  shows "\<exists>ns. dots (fst (prePopulateLoop_tri t n bw)) = dots (fst bw) @ ns
            \<and> (\<forall>d \<in> set ns. inSideBands d)"
  using assms
proof (induction n arbitrary: bw)
  case 0
  then show ?case by simp
next
  case (Suc n)
  obtain b w where bw: "bw = (b, w)" by (cases bw)
  define s where "s = rnd w"
  define w3 where "w3 = w\<lparr>rnd := stl (stl (stl s))\<rparr>"
  define w8 where "w8 = w\<lparr>rnd := stl (stl (stl (stl (stl (stl (stl (stl (stl s))))))))\<rparr>"
  define d where "d =
          \<lparr> dot_x = fst (getRandomX w3), dot_y = shd (stl (stl (stl (stl (stl s))))) * 2 - 1,
             dot_size = minSize CONFIG_triangles + shd (stl (stl (stl (stl (stl (stl s))))))
                * (maxSize CONFIG_triangles - minSize CONFIG_triangles),
             color = pickColor CONFIG_triangles (shd s),
             birthTime = t - shd (stl (stl s)) * (minLifetime CONFIG_triangles
                + shd (stl s) * (maxLifetime CONFIG_triangles - minLifetime CONFIG_triangles)) * 0.8,
             lifetime = minLifetime CONFIG_triangles
                + shd (stl s) * (maxLifetime CONFIG_triangles - minLifetime CONFIG_triangles),
             rotation = shd (stl (stl (stl (stl (stl (stl (stl s))))))) * pi * 2,
             rotationSpeed = (shd (stl (stl (stl (stl (stl (stl (stl (stl s)))))))) - 0.5) * 0.002 \<rparr>"
  have u: "unitStream s" using Suc.prems bw by (simp add: unitRandom_def s_def)
  have u3: "unitStream (rnd w3)" using u by (simp add: w3_def unitStream_stl)
  have u8: "unitRandom w8" using u by (simp add: w8_def unitStream_stl)
  have x: "(- 1 \<le> fst (getRandomX w3) \<and> fst (getRandomX w3) < - 0.333)
         \<or> (0.333 \<le> fst (getRandomX w3) \<and> fst (getRandomX w3) \<le> 1)"
    using u3 by (rule getRandomX_range)
  have "unitStream (stl (stl (stl (stl (stl s)))))" using u by (intro unitStream_stl)
  then have y: "0 \<le> shd (stl (stl (stl (stl (stl s)))))" "shd (stl (stl (stl (stl (stl s))))) < 1"
    using unitStream_shd by blast+
  have d: "inSideBands d" using x y by (simp add: inSideBands_def d_def)
  have step: "prePopulateLoop_tri t (Suc n) bw
                = prePopulateLoop_tri t n (b\<lparr>dots := dots b @ [d]\<rparr>, w8)"
    by (simp add: bw Let_def case_prod_beta s_def w3_def w8_def d_def)
  obtain ns where ns: "dots (fst (prePopulateLoop_tri t n (b\<lparr>dots := dots b @ [d]\<rparr>, w8)))
       = (dots b @ [d]) @ ns" "\<forall>d \<in> set ns. inSideBands d"
    using Suc.IH [of "(b\<lparr>dots := dots b @ [d]\<rparr>, w8)"] u8 by auto
  have "dots (fst (prePopulateLoop_tri t (Suc n) bw)) = dots (fst bw) @ (d # ns)"
    using step ns(1) bw by simp
  moreover have "\<forall>e \<in> set (d # ns). inSideBands e" using d ns(2) by simp
  ultimately show ?case by blast
qed

lemma prePopulateDots_tri_new:
  assumes "unitRandom w"
  shows "\<exists>ns. dots (fst (prePopulateDots_tri (b, w))) = dots b @ ns
            \<and> (\<forall>d \<in> set ns. inSideBands d)"
proof -
  have "unitRandom (snd (b, w\<lparr>perf := stl (perf w)\<rparr>))" using assms by simp
  from prePopulateLoop_tri_new [OF this]
  show ?thesis by (simp add: prePopulateDots_tri_def Let_def case_prod_beta)
qed

text \<open>
  Claim C4, as stated, says that the abscissa of a triangle never falls in the
  centre band from -1/3 to 1/3. \<^verbatim>\<open>getRandomX\<close> works with the three-digit constants
  0.333 and 0.667, so the right band starts at 0.333, below 1/3: with the draws of
  \<open>edgeWorld\<close>, all of them in [0, 1), \<^verbatim>\<open>spawnDot\<close> places a triangle at
  0.3330667.
\<close>

theorem triangle_centre_third_counterexample:
  "unitRandom edgeWorld
   \<and> map dot_x (dots (fst (spawnDot_tri (blank, edgeWorld)))) = [3330667 / 10000000]
   \<and> - 1 / 3 \<le> (3330667 / 10000000 :: real) \<and> (3330667 / 10000000 :: real) \<le> 1 / 3"
  by (simp add: spawnDot_tri_def getRandomX_def Let_def case_prod_beta blank_def edgeWorld_def
        sampleWorld_def unitRandom_def unitStream_def CONFIG_triangles_def)

text \<open>
  Claim C4, amended. For every particle created by \<^verbatim>\<open>spawnDot\<close> or by
  \<^verbatim>\<open>prePopulateDots\<close> of the triangle script, whatever the random source yields
  in [0, 1), the abscissa lies in one of the two side bands as the script bounds
  them with its constants 0.333 and 0.667, that is from -1 up to (not including)
  -0.333 or from 0.333 to 1, so never in the band from -0.333 up to (not
  including) 0.333; the ordinate lies from -1 to 1.
\<close>

theorem triangle_side_bands:
  assumes "unitRandom w"
  shows "(\<forall>d \<in> set (drop (length (dots b)) (dots (fst (spawnDot_tri (b, w))))). inSideBands d)
       \<and> (\<forall>d \<in> set (drop (length (dots b)) (dots (fst (prePopulateDots_tri (b, w))))).
            inSideBands d)"
proof -
  obtain ns where "dots (fst (spawnDot_tri (b, w))) = dots b @ ns" "\<forall>d \<in> set ns. inSideBands d"
    using spawnDot_tri_new [OF assms] by blast
  moreover obtain ms where "dots (fst (prePopulateDots_tri (b, w))) = dots b @ ms"
      "\<forall>d \<in> set ms. inSideBands d"
    using prePopulateDots_tri_new [OF assms] by blast
  ultimately show ?thesis by simp
qed

theorem triangle_side_bands_witness:
  "unitRandom edgeWorld
   \<and> dots (fst (spawnDot_tri (blank, edgeWorld))) \<noteq> []
   \<and> list_all inSideBands (dots (fst (spawnDot_tri (blank, edgeWorld))))
   \<and> length (dots (fst (prePopulateDots_tri (blank, edgeWorld)))) = 7
   \<and> list_all inSideBands (dots (fst (prePopulateDots_tri (blank, edgeWorld))))"
proof -
  have h: "unitRandom edgeWorld"
    by (simp add: edgeWorld_def sampleWorld_def unitRandom_def unitStream_def)
  have n: "dots (fst (spawnDot_tri (blank, edgeWorld))) \<noteq> []"
    by (simp add: spawnDot_tri_def Let_def case_prod_beta blank_def CONFIG_triangles_def)
  have d: "dots (blank :: tdot background) = []"
    by (simp add: blank_def)
  show ?thesis
    using h n triangle_side_bands [OF h, of blank]
    by (simp add: d prePopulateDots_tri_length list_all_iff)
qed

section \<open>Pre-population of the festive script\<close>

lemma birthOffset_range:
  fixes r lt :: real
  assumes "0 \<le> r" "r < 1" "0 < lt"
  shows "0 \<le> r * lt * 0.8 \<and> r * lt * 0.8 \<le> 0.8 * lt"
proof -
  define x where "x = r * lt"
  have "x \<le> 1 * lt" unfolding x_def using assms by (intro mult_right_mono) simp_all
  moreover have "0 \<le> x" unfolding x_def using assms by simp
  ultimately have "0 \<le> x * 0.8 \<and> x * 0.8 \<le> 0.8 * lt" by simp
  then show ?thesis by (simp only: x_def)
qed

lemma prePopulateLoop_new:
  assumes "unitRandom (snd bw)" "0 < minLifetime cfg" "minLifetime cfg \<le> maxLifetime cfg"
  shows "\<exists>ns. dots (fst (prePopulateLoop cfg t n bw)) = dots (fst bw) @ ns
            \<and> (\<forall>d \<in> set ns. birthTime d \<le> t \<and> t - birthTime d \<le> 0.8 * lifetime d)"
  using assms(1)
proof (induction n arbitrary: bw)
  case 0
  then show ?case by simp
next
  case (Suc n)
  obtain b w where bw: "bw = (b, w)" by (cases bw)
  define s where "s = rnd w"
  define w6 where "w6 = w\<lparr>rnd := stl (stl (stl (stl (stl (stl s)))))\<rparr>"
  define lt where "lt = minLifetime cfg + shd (stl s) * (maxLifetime cfg - minLifetime cfg)"
  define d where "d =
          \<lparr> dot_x = shd (stl (stl (stl s))) * 2 - 1, dot_y = shd (stl (stl (stl (stl s)))) * 2 - 1,
             dot_size = minSize cfg + shd (stl (stl (stl (stl (stl s))))) * (maxSize cfg - minSize cfg),
             color = pickColor cfg (shd s),
             birthTime = t - shd (stl (stl s)) * lt * 0.8,
             lifetime = lt \<rparr>"
  have u: "unitStream s" using Suc.prems bw by (simp add: unitRandom_def s_def)
  have u6: "unitRandom w6" using u by (simp add: w6_def unitStream_stl)
  have "unitStream (stl s)" using u by (intro unitStream_stl)
  then have "0 \<le> shd (stl s)" using unitStream_shd by blast
  then have lt: "0 < lt" unfolding lt_def using assms(2,3) by (rule lifetime_positive)
  have "unitStream (stl (stl s))" using u by (intro unitStream_stl)
  then have "0 \<le> shd (stl (stl s))" "shd (stl (stl s)) < 1" using unitStream_shd by blast+
  then have "0 \<le> shd (stl (stl s)) * lt * 0.8 \<and> shd (stl (stl s)) * lt * 0.8 \<le> 0.8 * lt"
    using lt by (rule birthOffset_range)
  then have d: "birthTime d \<le> t \<and> t - birthTime d \<le> 0.8 * lifetime d"
    by (simp add: d_def)
  have step: "prePopulateLoop cfg t (Suc n) bw
                = prePopulateLoop cfg t n (b\<lparr>dots := dots b @ [d]\<rparr>, w6)"
    by (simp add: bw Let_def case_prod_beta s_def w6_def d_def lt_def)
  obtain ns where ns: "dots (fst (prePopulateLoop cfg t n (b\<lparr>dots := dots b @ [d]\<rparr>, w6)))
       = (dots b @ [d]) @ ns"
      "\<forall>d \<in> set ns. birthTime d \<le> t \<and> t - birthTime d \<le> 0.8 * lifetime d"
    using Suc.IH [of "(b\<lparr>dots := dots b @ [d]\<rparr>, w6)"] u6 by auto
  have "dots (fst (prePopulateLoop cfg t (Suc n) bw)) = dots (fst bw) @ (d # ns)"
    using step ns(1) bw by simp
  moreover have "\<forall>e \<in> set (d # ns). birthTime e \<le> t \<and> t - birthTime e \<le> 0.8 * lifetime e"
    using d ns(2) by simp
  ultimately show ?case by blast
qed

lemma prePopulateDots_new:
  assumes "unitRandom w"
  shows "\<exists>ns. dots (fst (prePopulateDots (b, w))) = dots b @ ns
            \<and> (\<forall>d \<in> set ns. birthTime d \<le> shd (perf w)
                   \<and> shd (perf w) - birthTime d \<le> 0.8 * lifetime d)"
proof -
  have "unitRandom (snd (b, w\<lparr>perf := stl (perf w)\<rparr>))" using assms by simp
  moreover have "0 < minLifetime CONFIG_festive"
      "minLifetime CONFIG_festive \<le> maxLifetime CONFIG_festive"
    by (simp_all add: CONFIG_festive_def)
  ultimately show ?thesis
    using prePopulateLoop_new [of "(b, w\<lparr>perf := stl (perf w)\<rparr>)" CONFIG_festive]
    by (simp add: prePopulateDots_def Let_def case_prod_beta)
qed

text \<open>
  Claim C7. \<^verbatim>\<open>prePopulateDots\<close> of the festive script, whose capacity is 9 and whose
  target is \<^verbatim>\<open>Math.floor(CONFIG.maxDots * 0.7)\<close>, appends exactly 6 particles to
  the collection (which is empty when \<^verbatim>\<open>init\<close> calls it) and leaves the others as
  they are. Whatever the random source yields in [0, 1), each of the six has a
  birth time no later than the time \<^verbatim>\<open>performance.now()\<close> read at the start of the
  call, and an age at that time of at most 0.8 times its lifetime.
\<close>

theorem prePopulateDots_festive_six:
  assumes "unitRandom w"
  shows "maxDots CONFIG_festive = 9
       \<and> \<lfloor>real_of_int (maxDots CONFIG_festive) * 0.7\<rfloor> = 6
       \<and> length (drop (length (dots b)) (dots (fst (prePopulateDots (b, w))))) = 6
       \<and> take (length (dots b)) (dots (fst (prePopulateDots (b, w)))) = dots b
       \<and> (\<forall>d \<in> set (drop (length (dots b)) (dots (fst (prePopulateDots (b, w))))).
             birthTime d \<le> shd (perf w) \<and> shd (perf w) - birthTime d \<le> 0.8 * lifetime d)"
proof -
  obtain ns where ns: "dots (fst (prePopulateDots (b, w))) = dots b @ ns"
      "\<forall>d \<in> set ns. birthTime d \<le> shd (perf w) \<and> shd (perf w) - birthTime d \<le> 0.8 * lifetime d"
    using prePopulateDots_new [OF assms] by blast
  have "length (dots b @ ns) = length (dots b) + 6"
    using prePopulateDots_length [of "(b, w)"] ns(1) by simp
  then have len: "length ns = 6" by simp
  have "\<lfloor>(63 / 10 :: real)\<rfloor> = 6" by linarith
  then have fl: "\<lfloor>real_of_int (maxDots CONFIG_festive) * 0.7\<rfloor> = 6"
    by (simp add: CONFIG_festive_def)
  show ?thesis using ns len fl by (simp add: CONFIG_festive_def)
qed



theorem prePopulateDots_festive_six_witness:
  "unitRandom (sampleWorld (1/2) 1000 True)
   \<and> length (dots (fst (prePopulateDots (blank, sampleWorld (1/2) 1000 True)))) = 6
   \<and> list_all (\<lambda>d. birthTime d \<le> 1000 \<and> 1000 - birthTime d \<le> 0.8 * lifetime d)
        (dots (fst (prePopulateDots (blank, sampleWorld (1/2) 1000 True))))"
proof -
  have h: "unitRandom (sampleWorld (1/2) 1000 True)"
    by (simp add: sampleWorld_def unitRandom_def unitStream_def)
  have p: "shd (perf (sampleWorld (1/2) 1000 True)) = 1000"
    by (simp add: sampleWorld_def)
  have d: "dots (blank :: dot background) = []"
    by (simp add: blank_def)
  show ?thesis
    using h prePopulateDots_festive_six [OF h, of blank]
    by (simp add: p d list_all_iff)
qed

section \<open>The fade curve\<close>

lemma sin_cubic:
  fixes x :: real
  shows "\<bar>sin x - (x - x ^ 3 / 6)\<bar> \<le> \<bar>x\<bar> ^ 4 / 24"
proof -
  have c: "sin_coeff (Suc 0) = 1" "sin_coeff 2 = 0" "sin_coeff 3 = - 1 / 6"
    by (simp_all add: sin_coeff_def fact_numeral)
  have "{..<4::nat} = {0, 1, 2, 3}" by auto
  then have "(\<Sum>m<4. sin_coeff m * x ^ m)
      = sin_coeff 0 * x ^ 0 + sin_coeff 1 * x ^ 1 + sin_coeff 2 * x ^ 2 + sin_coeff 3 * x ^ 3"
    by simp
  then have s: "(\<Sum>m<4. sin_coeff m * x ^ m) = x - x ^ 3 / 6"
    by (simp add: c)
  have f: "(fact 4 :: real) = 24"
    by (simp add: fact_numeral)
  have "\<bar>sin x - (x - x ^ 3 / 6)\<bar> \<le> inverse 24 * \<bar>x\<bar> ^ 4"
    using Maclaurin_sin_bound [of x 4] unfolding s f .
  then show ?thesis by simp
qed

lemma pi_less_32: "pi < 3.2"
proof (rule ccontr)
  assume "\<not> pi < 3.2"
  then have le: "(8 / 15 :: real) \<le> pi / 6" by simp
  have "sin (8 / 15) \<le> sin (pi / 6)"
    using le by (intro sin_monotone_2pi_le) (simp_all add: field_simps)
  then have up: "sin (8 / 15 :: real) \<le> 1 / 2" by (simp add: sin_30)
  have "\<bar>sin (8 / 15 :: real) - (8 / 15 - (8 / 15) ^ 3 / 6)\<bar> \<le> \<bar>8 / 15\<bar> ^ 4 / 24"
    by (rule sin_cubic)
  then have "(8 / 15 - (8 / 15) ^ 3 / 6) - \<bar>8 / 15\<bar> ^ 4 / 24 \<le> sin (8 / 15 :: real)"
    by linarith
  then have "(1 / 2 :: real) < sin (8 / 15)" by (simp add: power_divide)
  then show False using up by simp
qed

lemma pi_greater_31: "3.1 < pi"
proof (rule ccontr)
  assume "\<not> 3.1 < pi"
  then have le: "pi / 6 \<le> (31 / 60 :: real)" by simp
  have "sin (pi / 6) \<le> sin (31 / 60)"
    using le pi_half_less_two pi_ge_two by (intro sin_monotone_2pi_le) simp_all
  then have lo: "1 / 2 \<le> sin (31 / 60 :: real)" by (simp add: sin_30)
  have "\<bar>sin (31 / 60 :: real) - (31 / 60 - (31 / 60) ^ 3 / 6)\<bar> \<le> \<bar>31 / 60\<bar> ^ 4 / 24"
    by (rule sin_cubic)
  then have "sin (31 / 60 :: real) \<le> (31 / 60 - (31 / 60) ^ 3 / 6) + \<bar>31 / 60\<bar> ^ 4 / 24"
    by linarith
  then have "sin (31 / 60 :: real) < 1 / 2" by (simp add: power_divide)
  then show False using lo by simp
qed

lemma sin_15_pos: "0 < sin (15 :: real)"
proof -
  have "sin (15 :: real) = sin ((15 - 4 * pi) + 2 * pi + 2 * pi)" by (simp add: algebra_simps)
  also have "\<dots> = sin (15 - 4 * pi)" by (simp only: sin_periodic)
  finally have e: "sin (15 :: real) = sin (15 - 4 * pi)" .
  have "0 < 15 - 4 * pi" "15 - 4 * pi < pi" using pi_less_32 pi_greater_31 by simp_all
  then have "0 < sin (15 - 4 * pi)" by (rule sin_gt_zero)
  then show ?thesis using e by simp
qed

lemma sin_20_pos: "0 < sin (20 :: real)"
proof -
  have "sin (20 :: real) = sin ((20 - 6 * pi) + 2 * pi + 2 * pi + 2 * pi)" by (simp add: algebra_simps)
  also have "\<dots> = sin (20 - 6 * pi)" by (simp only: sin_periodic)
  finally have e: "sin (20 :: real) = sin (20 - 6 * pi)" .
  have "0 < 20 - 6 * pi" "20 - 6 * pi < pi" using pi_less_32 pi_greater_31 by simp_all
  then have "0 < sin (20 - 6 * pi)" by (rule sin_gt_zero)
  then show ?thesis using e by simp
qed

lemma envelope_range:
  fixes age lt :: real
  assumes "0 < lt" "0 \<le> age" "age \<le> lt"
  shows "0 \<le> sin (age / lt * pi) \<and> sin (age / lt * pi) \<le> 1"
proof -
  have "0 \<le> age / lt" using assms by simp
  then have lo: "0 \<le> age / lt * pi" by (intro mult_nonneg_nonneg) simp_all
  have "age / lt \<le> 1" using assms by simp
  then have "age / lt * pi \<le> 1 * pi" by (intro mult_right_mono) simp_all
  then have hi: "age / lt * pi \<le> pi" by simp
  show ?thesis using sin_ge_zero [OF lo hi] by simp
qed

lemma twinkle_range: "0.9 \<le> twinkle d now \<and> twinkle d now \<le> 1.1"
proof -
  define s where "s = sin ((now - birthTime d) * 0.01)"
  have "- 1 \<le> s" "s \<le> 1" by (simp_all add: s_def)
  then have "0.9 \<le> 1 + s * 0.1 \<and> 1 + s * 0.1 \<le> 1.1" by simp
  then show ?thesis unfolding twinkle_def Let_def s_def .
qed

text \<open>
  Claim C3. For a particle with a lifetime other than zero and any time \<open>now\<close>
  (so in particular while its age \<open>now - birthTime\<close> lies between 0 and its
  lifetime), the fade envelope that \<^verbatim>\<open>calculateAlpha\<close> computes (its result in the
  plain script, its local \<^verbatim>\<open>baseAlpha\<close> in the festive and the triangle script) is
  the sine of pi times age over lifetime: 0 at age 0, exactly 1 at half the
  lifetime, 0 at the lifetime. In the festive and the triangle script the result is
  that envelope times the twinkle factor 1 + 0.1 sin (0.01 age).
\<close>

theorem fade_envelope:
  assumes "lifetime d \<noteq> 0" and "lifetime f \<noteq> 0"
  shows "calculateAlpha_dots d now = Some (sin (pi * ((now - birthTime d) / lifetime d)))
       \<and> calculateAlpha_dots d (birthTime d) = Some 0
       \<and> calculateAlpha_dots d (birthTime d + lifetime d / 2) = Some 1
       \<and> calculateAlpha_dots d (birthTime d + lifetime d) = Some 0
       \<and> baseAlpha f now = Some (sin (pi * ((now - birthTime f) / lifetime f)))
       \<and> baseAlpha f (birthTime f) = Some 0
       \<and> baseAlpha f (birthTime f + lifetime f / 2) = Some 1
       \<and> baseAlpha f (birthTime f + lifetime f) = Some 0
       \<and> calculateAlpha f now
           = Some (sin (pi * ((now - birthTime f) / lifetime f))
                   * (1 + 0.1 * sin (0.01 * (now - birthTime f))))"
  using assms
  by (simp add: calculateAlpha_dots_def baseAlpha_def calculateAlpha_def twinkle_def js_div_def
        Let_def mult.commute)


theorem fade_envelope_witness:
  "lifetime (sampleDot 0 3000) \<noteq> 0 \<and> lifetime (sampleTri 0 5000) \<noteq> 0
   \<and> calculateAlpha_dots (sampleDot 0 3000) 0 = Some 0
   \<and> calculateAlpha_dots (sampleDot 0 3000) 1500 = Some 1
   \<and> calculateAlpha_dots (sampleDot 0 3000) 3000 = Some 0
   \<and> calculateAlpha_dots (sampleDot 0 3000) 500 = Some (1 / 2)
   \<and> baseAlpha (sampleTri 0 5000) 2500 = Some 1
   \<and> calculateAlpha (sampleTri 0 5000) 2500 = Some (1 + 0.1 * sin 25)"
proof -
  have h: "lifetime (sampleDot 0 3000) \<noteq> 0" "lifetime (sampleTri 0 5000) \<noteq> 0"
    by (simp_all add: sampleDot_def sampleTri_def)
  have b: "birthTime (sampleDot 0 3000) = 0" "lifetime (sampleDot 0 3000) = 3000"
      "birthTime (sampleTri 0 5000) = 0" "lifetime (sampleTri 0 5000) = 5000"
    by (simp_all add: sampleDot_def sampleTri_def)
  show ?thesis
    using h fade_envelope [OF h, of 500] fade_envelope [OF h, of 2500]
    by (simp add: b sin_30)
qed

text \<open>
  Claim C10. In the festive and the triangle script, for a particle whose age lies
  between 0 and its (positive) lifetime, \<^verbatim>\<open>calculateAlpha\<close> returns a number from 0
  to 1.1: never negative, and possibly above 1. It is above 1 for a festive dot of
  lifetime 3000 at age 1500 and for a triangle of lifetime 4000 at age 2000, the
  shortest lifetimes the two scripts give.
\<close>

theorem twinkled_alpha_range:
  "(0 < lifetime f \<and> 0 \<le> now - birthTime f \<and> now - birthTime f \<le> lifetime f
      \<longrightarrow> (\<exists>a. calculateAlpha f now = Some a \<and> 0 \<le> a \<and> a \<le> 1.1))
   \<and> (\<exists>a. calculateAlpha (sampleDot 0 3000) 1500 = Some a \<and> 1 < a)
   \<and> (\<exists>a. calculateAlpha (sampleTri 0 4000) 2000 = Some a \<and> 1 < a)"
proof (intro conjI impI)
  assume h: "0 < lifetime f \<and> 0 \<le> now - birthTime f \<and> now - birthTime f \<le> lifetime f"
  define e where "e = sin ((now - birthTime f) / lifetime f * pi)"
  have e: "0 \<le> e \<and> e \<le> 1" unfolding e_def using h by (intro envelope_range) simp_all
  have t: "0.9 \<le> twinkle f now \<and> twinkle f now \<le> 1.1" by (rule twinkle_range)
  have "0 \<le> e * twinkle f now" using e t by (intro mult_nonneg_nonneg) simp_all
  moreover have "e * twinkle f now \<le> 1 * 1.1"
    using e t by (intro mult_mono) simp_all
  moreover have "calculateAlpha f now = Some (e * twinkle f now)"
    using h by (simp add: calculateAlpha_def baseAlpha_def js_div_def Let_def e_def)
  ultimately show "\<exists>a. calculateAlpha f now = Some a \<and> 0 \<le> a \<and> a \<le> 1.1" by simp
next
  have "calculateAlpha (sampleDot 0 3000) 1500 = Some (1 + sin 15 * 0.1)"
    by (simp add: calculateAlpha_def baseAlpha_def twinkle_def js_div_def Let_def sampleDot_def)
  then show "\<exists>a. calculateAlpha (sampleDot 0 3000) 1500 = Some a \<and> 1 < a"
    using sin_15_pos by simp
next
  have "calculateAlpha (sampleTri 0 4000) 2000 = Some (1 + sin 20 * 0.1)"
    by (simp add: calculateAlpha_def baseAlpha_def twinkle_def js_div_def Let_def sampleTri_def)
  then show "\<exists>a. calculateAlpha (sampleTri 0 4000) 2000 = Some a \<and> 1 < a"
    using sin_20_pos by simp
qed

theorem twinkled_alpha_range_witness:
  "0 < lifetime (sampleDot 0 3000) \<and> 0 \<le> 1500 - birthTime (sampleDot 0 3000)
   \<and> 1500 - birthTime (sampleDot 0 3000) \<le> lifetime (sampleDot 0 3000)
   \<and> (\<exists>a. calculateAlpha (sampleDot 0 3000) 1500 = Some a \<and> 0 \<le> a \<and> a \<le> 1.1)"
proof -
  have h: "0 < lifetime (sampleDot 0 3000) \<and> 0 \<le> 1500 - birthTime (sampleDot 0 3000)
     \<and> 1500 - birthTime (sampleDot 0 3000) \<le> lifetime (sampleDot 0 3000)"
    by (simp add: sampleDot_def)
  show ?thesis
    using h twinkled_alpha_range [of "sampleDot 0 3000" 1500] by blast
qed

section \<open>Construction\<close>

lemma new_dots_without_webgl:
  "\<not> webgl w \<Longrightarrow> new_dots w =
     (blank\<lparr>canvas := Some (nextNode w), canvasWidth := 300, canvasHeight := 150\<rparr>,
      w\<lparr>nextNode := Suc (nextNode w), body := nextNode w # body w,
        console := console w @ [''WebGL not supported, polkadot effect disabled'']\<rparr>)"
  by (simp add: new_dots_def init_dots_def createCanvas_def blank_def Let_def)

lemma new_festive_without_webgl:
  "\<not> webgl w \<Longrightarrow> new_festive w =
     (blank\<lparr>canvas := Some (nextNode w), canvasWidth := 300, canvasHeight := 150\<rparr>,
      w\<lparr>nextNode := Suc (nextNode w), body := nextNode w # body w,
        console := console w @ [''WebGL not supported, polkadot effect disabled'']\<rparr>)"
  by (simp add: new_festive_def init_festive_def createCanvas_def blank_def Let_def)

lemma new_tri_without_webgl:
  "\<not> webgl w \<Longrightarrow> new_tri w =
     (blank\<lparr>canvas := Some (nextNode w), canvasWidth := 300, canvasHeight := 150\<rparr>,
      w\<lparr>nextNode := Suc (nextNode w), body := nextNode w # body w,
        console := console w @ [''WebGL not supported, triangle effect disabled'']\<rparr>)"
  by (simp add: new_tri_def init_tri_def createCanvas_def blank_def Let_def)

text \<open>An instance with no pending frame and no resize listener is left alone by every event.\<close>

lemma deliver_inert:
  assumes "animationId b = None" "canvas b \<notin> set (resizeListeners w)"
  shows "fst (deliver upd ev (b, w)) = b
       \<and> (snd (deliver upd ev (b, w)))\<lparr>innerWidth := iw, innerHeight := ih\<rparr>
           = w\<lparr>innerWidth := iw, innerHeight := ih\<rparr>"
proof (cases ev)
  case (AnimationFrame now)
  then show ?thesis using assms by simp
next
  case (Resize iw' ih')
  then show ?thesis using assms by (simp add: Let_def)
qed

lemma run_inert:
  assumes "animationId (fst bw) = None" "canvas (fst bw) \<notin> set (resizeListeners (snd bw))"
  shows "fst (run upd evs bw) = fst bw
       \<and> (snd (run upd evs bw))\<lparr>innerWidth := iw, innerHeight := ih\<rparr>
           = (snd bw)\<lparr>innerWidth := iw, innerHeight := ih\<rparr>"
  using assms
proof (induction evs arbitrary: bw)
  case Nil
  then show ?case by simp
next
  case (Cons ev evs)
  obtain b w where bw: "bw = (b, w)" by (cases bw)
  define bw' where "bw' = deliver upd ev (b, w)"
  have d: "fst bw' = b"
      "(snd bw')\<lparr>innerWidth := iw, innerHeight := ih\<rparr> = w\<lparr>innerWidth := iw, innerHeight := ih\<rparr>"
    unfolding bw'_def using deliver_inert [where b = b and w = w and upd = upd and ev = ev and iw = iw and ih = ih]
      Cons.prems bw by simp_all
  have "resizeListeners ((snd bw')\<lparr>innerWidth := iw, innerHeight := ih\<rparr>)
          = resizeListeners (w\<lparr>innerWidth := iw, innerHeight := ih\<rparr>)"
    using d(2) by simp
  then have l: "resizeListeners (snd bw') = resizeListeners w" by simp
  have "fst (run upd evs bw') = fst bw'
       \<and> (snd (run upd evs bw'))\<lparr>innerWidth := iw, innerHeight := ih\<rparr>
           = (snd bw')\<lparr>innerWidth := iw, innerHeight := ih\<rparr>"
    using Cons.prems bw d(1) l by (intro Cons.IH) simp_all
  then show ?case using d bw by (simp add: bw'_def)
qed


lemma prePopulateLoop_frame:
  "\<exists>s ds. prePopulateLoop cfg t n bw = ((fst bw)\<lparr>dots := ds\<rparr>, (snd bw)\<lparr>rnd := s\<rparr>)"
proof (induction n arbitrary: bw)
  case 0
  have "bw = ((fst bw)\<lparr>dots := dots (fst bw)\<rparr>, (snd bw)\<lparr>rnd := rnd (snd bw)\<rparr>)" by simp
  then show ?case unfolding prePopulateLoop.simps by blast
next
  case (Suc n)
  obtain b w where bw: "bw = (b, w)" by (cases bw)
  obtain b' w' where step: "prePopulateLoop cfg t (Suc n) bw = prePopulateLoop cfg t n (b', w')"
      and b': "b' = b\<lparr>dots := dots b'\<rparr>" and w': "w' = w\<lparr>rnd := rnd w'\<rparr>"
    by (simp add: bw Let_def case_prod_beta)
  obtain s ds where "prePopulateLoop cfg t n (b', w') = (b'\<lparr>dots := ds\<rparr>, w'\<lparr>rnd := s\<rparr>)"
    using Suc.IH [of "(b', w')"] by auto
  then have "prePopulateLoop cfg t (Suc n) bw = (b\<lparr>dots := ds\<rparr>, w\<lparr>rnd := s\<rparr>)"
    using step by (subst (asm) b', subst (asm) w') simp
  then show ?case using bw by auto
qed

lemma prePopulateLoop_tri_frame:
  "\<exists>s ds. prePopulateLoop_tri t n bw = ((fst bw)\<lparr>dots := ds\<rparr>, (snd bw)\<lparr>rnd := s\<rparr>)"
proof (induction n arbitrary: bw)
  case 0
  have "bw = ((fst bw)\<lparr>dots := dots (fst bw)\<rparr>, (snd bw)\<lparr>rnd := rnd (snd bw)\<rparr>)" by simp
  then show ?case unfolding prePopulateLoop_tri.simps by blast
next
  case (Suc n)
  obtain b w where bw: "bw = (b, w)" by (cases bw)
  obtain b' w' where step: "prePopulateLoop_tri t (Suc n) bw = prePopulateLoop_tri t n (b', w')"
      and b': "b' = b\<lparr>dots := dots b'\<rparr>" and w': "w' = w\<lparr>rnd := rnd w'\<rparr>"
    by (simp add: bw Let_def case_prod_beta)
  obtain s ds where "prePopulateLoop_tri t n (b', w') = (b'\<lparr>dots := ds\<rparr>, w'\<lparr>rnd := s\<rparr>)"
    using Suc.IH [of "(b', w')"] by auto
  then have "prePopulateLoop_tri t (Suc n) bw = (b\<lparr>dots := ds\<rparr>, w\<lparr>rnd := s\<rparr>)"
    using step by (subst (asm) b', subst (asm) w') simp
  then show ?case using bw by auto
qed

lemma prePopulateDots_frame:
  "\<exists>s ds. prePopulateDots (b, w) = (b\<lparr>dots := ds\<rparr>, w\<lparr>rnd := s, perf := stl (perf w)\<rparr>)"
proof -
  define n where "n = nat \<lfloor>real_of_int (maxDots CONFIG_festive) * 0.7\<rfloor>"
  obtain s ds where "prePopulateLoop CONFIG_festive (shd (perf w)) n (b, w\<lparr>perf := stl (perf w)\<rparr>)
      = (b\<lparr>dots := ds\<rparr>, w\<lparr>perf := stl (perf w)\<rparr>\<lparr>rnd := s\<rparr>)"
    using prePopulateLoop_frame [of CONFIG_festive "shd (perf w)" n "(b, w\<lparr>perf := stl (perf w)\<rparr>)"]
    by auto
  then have "prePopulateDots (b, w) = (b\<lparr>dots := ds\<rparr>, w\<lparr>rnd := s, perf := stl (perf w)\<rparr>)"
    unfolding prePopulateDots_def Let_def case_prod_beta n_def [symmetric] by simp
  then show ?thesis by blast
qed

lemma prePopulateDots_tri_frame:
  "\<exists>s ds. prePopulateDots_tri (b, w) = (b\<lparr>dots := ds\<rparr>, w\<lparr>rnd := s, perf := stl (perf w)\<rparr>)"
proof -
  define n where "n = nat \<lfloor>real_of_int (maxDots CONFIG_triangles) * 0.7\<rfloor>"
  obtain s ds where "prePopulateLoop_tri (shd (perf w)) n (b, w\<lparr>perf := stl (perf w)\<rparr>)
      = (b\<lparr>dots := ds\<rparr>, w\<lparr>perf := stl (perf w)\<rparr>\<lparr>rnd := s\<rparr>)"
    using prePopulateLoop_tri_frame [of "shd (perf w)" n "(b, w\<lparr>perf := stl (perf w)\<rparr>)"]
    by auto
  then have "prePopulateDots_tri (b, w) = (b\<lparr>dots := ds\<rparr>, w\<lparr>rnd := s, perf := stl (perf w)\<rparr>)"
    unfolding prePopulateDots_tri_def Let_def case_prod_beta n_def [symmetric] by simp
  then show ?thesis by blast
qed


lemma new_dots_with_webgl:
  assumes "webgl w"
  shows "new_dots w =
     (blank\<lparr>canvas := Some (nextNode w),
            canvasWidth := innerWidth w * (if devicePixelRatio w = 0 then 1 else devicePixelRatio w),
            canvasHeight := innerHeight w * (if devicePixelRatio w = 0 then 1 else devicePixelRatio w),
            gl := True, program := True, animationId := Some (Suc (frameCounter w))\<rparr>,
      w\<lparr>nextNode := Suc (nextNode w), body := nextNode w # body w,
        resizeListeners := resizeListeners w @ [Some (nextNode w)],
        frameCounter := Suc (frameCounter w), frames := frames w @ [Suc (frameCounter w)]\<rparr>)"
  using assms
  by (simp add: new_dots_def init_dots_def createCanvas_def setupWebGL_def resize_def
        addResizeListener_def animate_def requestAnimationFrame_def blank_def Let_def)

lemma new_festive_with_webgl:
  assumes "webgl w"
  shows "\<exists>s ds. new_festive w =
     (blank\<lparr>canvas := Some (nextNode w),
            canvasWidth := innerWidth w * (if devicePixelRatio w = 0 then 1 else devicePixelRatio w),
            canvasHeight := innerHeight w * (if devicePixelRatio w = 0 then 1 else devicePixelRatio w),
            gl := True, program := True, dots := ds, animationId := Some (Suc (frameCounter w))\<rparr>,
      w\<lparr>rnd := s, perf := stl (perf w),
        nextNode := Suc (nextNode w), body := nextNode w # body w,
        resizeListeners := resizeListeners w @ [Some (nextNode w)],
        frameCounter := Suc (frameCounter w), frames := frames w @ [Suc (frameCounter w)]\<rparr>)"
proof -
  define bw :: "dot background \<times> world" where "bw = addResizeListener (resize (setupWebGL
      ((fst (createCanvas (blank, w)))\<lparr>gl := True\<rparr>, snd (createCanvas (blank :: dot background, w)))))"
  obtain s ds where p: "prePopulateDots (fst bw, snd bw)
      = ((fst bw)\<lparr>dots := ds\<rparr>, (snd bw)\<lparr>rnd := s, perf := stl (perf (snd bw))\<rparr>)"
    using prePopulateDots_frame [of "fst bw" "snd bw"] by blast
  have n: "new_festive w = animate (prePopulateDots (fst bw, snd bw))"
    using assms
    by (simp add: new_festive_def init_festive_def bw_def createCanvas_def Let_def case_prod_beta)
  have "new_festive w =
     (blank\<lparr>canvas := Some (nextNode w),
            canvasWidth := innerWidth w * (if devicePixelRatio w = 0 then 1 else devicePixelRatio w),
            canvasHeight := innerHeight w * (if devicePixelRatio w = 0 then 1 else devicePixelRatio w),
            gl := True, program := True, dots := ds, animationId := Some (Suc (frameCounter w))\<rparr>,
      w\<lparr>rnd := s, perf := stl (perf w),
        nextNode := Suc (nextNode w), body := nextNode w # body w,
        resizeListeners := resizeListeners w @ [Some (nextNode w)],
        frameCounter := Suc (frameCounter w), frames := frames w @ [Suc (frameCounter w)]\<rparr>)"
    unfolding n p
    by (simp add: bw_def createCanvas_def setupWebGL_def resize_def
        addResizeListener_def animate_def requestAnimationFrame_def blank_def Let_def)
  then show ?thesis by blast
qed

lemma new_tri_with_webgl:
  assumes "webgl w"
  shows "\<exists>s ds. new_tri w =
     (blank\<lparr>canvas := Some (nextNode w),
            canvasWidth := innerWidth w * (if devicePixelRatio w = 0 then 1 else devicePixelRatio w),
            canvasHeight := innerHeight w * (if devicePixelRatio w = 0 then 1 else devicePixelRatio w),
            gl := True, program := True, dots := ds, animationId := Some (Suc (frameCounter w))\<rparr>,
      w\<lparr>rnd := s, perf := stl (perf w),
        nextNode := Suc (nextNode w), body := nextNode w # body w,
        resizeListeners := resizeListeners w @ [Some (nextNode w)],
        frameCounter := Suc (frameCounter w), frames := frames w @ [Suc (frameCounter w)]\<rparr>)"
proof -
  define bw :: "tdot background \<times> world" where "bw = addResizeListener (resize (setupWebGL
      ((fst (createCanvas (blank, w)))\<lparr>gl := True\<rparr>, snd (createCanvas (blank :: tdot background, w)))))"
  obtain s ds where p: "prePopulateDots_tri (fst bw, snd bw)
      = ((fst bw)\<lparr>dots := ds\<rparr>, (snd bw)\<lparr>rnd := s, perf := stl (perf (snd bw))\<rparr>)"
    using prePopulateDots_tri_frame [of "fst bw" "snd bw"] by blast
  have n: "new_tri w = animate (prePopulateDots_tri (fst bw, snd bw))"
    using assms
    by (simp add: new_tri_def init_tri_def bw_def createCanvas_def Let_def case_prod_beta)
  have "new_tri w =
     (blank\<lparr>canvas := Some (nextNode w),
            canvasWidth := innerWidth w * (if devicePixelRatio w = 0 then 1 else devicePixelRatio w),
            canvasHeight := innerHeight w * (if devicePixelRatio w = 0 then 1 else devicePixelRatio w),
            gl := True, program := True, dots := ds, animationId := Some (Suc (frameCounter w))\<rparr>,
      w\<lparr>rnd := s, perf := stl (perf w),
        nextNode := Suc (nextNode w), body := nextNode w # body w,
        resizeListeners := resizeListeners w @ [Some (nextNode w)],
        frameCounter := Suc (frameCounter w), frames := frames w @ [Suc (frameCounter w)]\<rparr>)"
    unfolding n p
    by (simp add: bw_def createCanvas_def setupWebGL_def resize_def
        addResizeListener_def animate_def requestAnimationFrame_def blank_def Let_def)
  then show ?thesis by blast
qed

text \<open>
  Claim C9. When \<^verbatim>\<open>getContext('webgl')\<close> yields no context, \<^verbatim>\<open>init\<close> inserts the
  canvas as first child of the body, writes one warning to the console and
  returns: in each of the three scripts the instance and the world after
  construction are exactly the ones below, so \<open>program\<close> is unset (no WebGL setup),
  the resize listeners are those of before (none registered), the collection is
  empty (no pre-population), \<open>animationId\<close> is unset and no frame is pending (no
  animation loop), the canvas keeps its default size (no \<^verbatim>\<open>resize\<close>), and the random
  source and the clock are untouched. \<^verbatim>\<open>init\<close> has no failing step on that path, so
  nothing is thrown to the page. The instance is inert from then on: whatever
  frames and resizes the browser delivers, it stays as constructed and the
  world changes by the window size alone (given that no listener was registered
  beforehand for a canvas that did not exist yet).
\<close>

theorem init_without_webgl:
  assumes "\<not> webgl w"
  shows "new_dots w =
           (blank\<lparr>canvas := Some (nextNode w), canvasWidth := 300, canvasHeight := 150\<rparr>,
            w\<lparr>nextNode := Suc (nextNode w), body := nextNode w # body w,
              console := console w @ [''WebGL not supported, polkadot effect disabled'']\<rparr>)
       \<and> new_festive w =
           (blank\<lparr>canvas := Some (nextNode w), canvasWidth := 300, canvasHeight := 150\<rparr>,
            w\<lparr>nextNode := Suc (nextNode w), body := nextNode w # body w,
              console := console w @ [''WebGL not supported, polkadot effect disabled'']\<rparr>)
       \<and> new_tri w =
           (blank\<lparr>canvas := Some (nextNode w), canvasWidth := 300, canvasHeight := 150\<rparr>,
            w\<lparr>nextNode := Suc (nextNode w), body := nextNode w # body w,
              console := console w @ [''WebGL not supported, triangle effect disabled'']\<rparr>)
       \<and> (Some (nextNode w) \<notin> set (resizeListeners w) \<longrightarrow>
            fst (run upd evs (new_dots w)) = fst (new_dots w)
          \<and> (snd (run upd evs (new_dots w)))\<lparr>innerWidth := innerWidth w, innerHeight := innerHeight w\<rparr>
               = snd (new_dots w)
          \<and> fst (run upd evs (new_festive w)) = fst (new_festive w)
          \<and> (snd (run upd evs (new_festive w)))\<lparr>innerWidth := innerWidth w, innerHeight := innerHeight w\<rparr>
               = snd (new_festive w)
          \<and> fst (run updt evs (new_tri w)) = fst (new_tri w)
          \<and> (snd (run updt evs (new_tri w)))\<lparr>innerWidth := innerWidth w, innerHeight := innerHeight w\<rparr>
               = snd (new_tri w))"
proof (intro conjI impI)
  show "new_dots w =
           (blank\<lparr>canvas := Some (nextNode w), canvasWidth := 300, canvasHeight := 150\<rparr>,
            w\<lparr>nextNode := Suc (nextNode w), body := nextNode w # body w,
              console := console w @ [''WebGL not supported, polkadot effect disabled'']\<rparr>)"
    using assms by (rule new_dots_without_webgl)
  show "new_festive w =
           (blank\<lparr>canvas := Some (nextNode w), canvasWidth := 300, canvasHeight := 150\<rparr>,
            w\<lparr>nextNode := Suc (nextNode w), body := nextNode w # body w,
              console := console w @ [''WebGL not supported, polkadot effect disabled'']\<rparr>)"
    using assms by (rule new_festive_without_webgl)
  show "new_tri w =
           (blank\<lparr>canvas := Some (nextNode w), canvasWidth := 300, canvasHeight := 150\<rparr>,
            w\<lparr>nextNode := Suc (nextNode w), body := nextNode w # body w,
              console := console w @ [''WebGL not supported, triangle effect disabled'']\<rparr>)"
    using assms by (rule new_tri_without_webgl)
next
  assume l: "Some (nextNode w) \<notin> set (resizeListeners w)"
  have d: "animationId (fst (new_dots w)) = None"
      "canvas (fst (new_dots w)) \<notin> set (resizeListeners (snd (new_dots w)))"
      "innerWidth (snd (new_dots w)) = innerWidth w" "innerHeight (snd (new_dots w)) = innerHeight w"
    using l by (simp_all add: new_dots_without_webgl [OF assms] blank_def)
  have f: "animationId (fst (new_festive w)) = None"
      "canvas (fst (new_festive w)) \<notin> set (resizeListeners (snd (new_festive w)))"
      "innerWidth (snd (new_festive w)) = innerWidth w"
      "innerHeight (snd (new_festive w)) = innerHeight w"
    using l by (simp_all add: new_festive_without_webgl [OF assms] blank_def)
  have t: "animationId (fst (new_tri w)) = None"
      "canvas (fst (new_tri w)) \<notin> set (resizeListeners (snd (new_tri w)))"
      "innerWidth (snd (new_tri w)) = innerWidth w" "innerHeight (snd (new_tri w)) = innerHeight w"
    using l by (simp_all add: new_tri_without_webgl [OF assms] blank_def)
  have same: "v\<lparr>innerWidth := innerWidth w, innerHeight := innerHeight w\<rparr> = v"
    if "innerWidth v = innerWidth w" "innerHeight v = innerHeight w" for v :: world
    using that by (cases v) simp
  note rd = run_inert [OF d(1,2), where upd = upd and evs = evs and iw = "innerWidth w"
      and ih = "innerHeight w"]
  note rf = run_inert [OF f(1,2), where upd = upd and evs = evs and iw = "innerWidth w"
      and ih = "innerHeight w"]
  note rt = run_inert [OF t(1,2), where upd = updt and evs = evs and iw = "innerWidth w"
      and ih = "innerHeight w"]
  show "fst (run upd evs (new_dots w)) = fst (new_dots w)" using rd by (rule conjunct1)
  show "(snd (run upd evs (new_dots w)))\<lparr>innerWidth := innerWidth w, innerHeight := innerHeight w\<rparr>
          = snd (new_dots w)"
    using rd [THEN conjunct2] same [OF d(3,4)] by (rule trans)
  show "fst (run upd evs (new_festive w)) = fst (new_festive w)" using rf by (rule conjunct1)
  show "(snd (run upd evs (new_festive w)))\<lparr>innerWidth := innerWidth w, innerHeight := innerHeight w\<rparr>
          = snd (new_festive w)"
    using rf [THEN conjunct2] same [OF f(3,4)] by (rule trans)
  show "fst (run updt evs (new_tri w)) = fst (new_tri w)" using rt by (rule conjunct1)
  show "(snd (run updt evs (new_tri w)))\<lparr>innerWidth := innerWidth w, innerHeight := innerHeight w\<rparr>
          = snd (new_tri w)"
    using rt [THEN conjunct2] same [OF t(3,4)] by (rule trans)
qed

theorem init_without_webgl_witness:
  "\<not> webgl (sampleWorld (1/2) 1000 False)
   \<and> Some (nextNode (sampleWorld (1/2) 1000 False))
        \<notin> set (resizeListeners (sampleWorld (1/2) 1000 False))
   \<and> new_festive (sampleWorld (1/2) 1000 False)
        = (blank\<lparr>canvas := Some 0, canvasWidth := 300, canvasHeight := 150\<rparr>,
           (sampleWorld (1/2) 1000 False)
             \<lparr>nextNode := 1, body := [0],
              console := [''WebGL not supported, polkadot effect disabled'']\<rparr>)
   \<and> fst (run updateDots_festive [AnimationFrame 16, Resize 1024 768, AnimationFrame 32]
             (new_festive (sampleWorld (1/2) 1000 False)))
        = fst (new_festive (sampleWorld (1/2) 1000 False))"
proof -
  have h: "\<not> webgl (sampleWorld (1/2) 1000 False)"
    by (simp add: sampleWorld_def)
  have l: "Some (nextNode (sampleWorld (1/2) 1000 False))
        \<notin> set (resizeListeners (sampleWorld (1/2) 1000 False))"
    by (simp add: sampleWorld_def)
  have f: "nextNode (sampleWorld (1/2) 1000 False) = 0" "body (sampleWorld (1/2) 1000 False) = []"
      "console (sampleWorld (1/2) 1000 False) = []"
    by (simp_all add: sampleWorld_def)
  note t = init_without_webgl [OF h, where upd = updateDots_festive
      and evs = "[AnimationFrame 16, Resize 1024 768, AnimationFrame 32]"
      and updt = updateDots_tri]
  have a: "new_festive (sampleWorld (1/2) 1000 False)
        = (blank\<lparr>canvas := Some 0, canvasWidth := 300, canvasHeight := 150\<rparr>,
           (sampleWorld (1/2) 1000 False)
             \<lparr>nextNode := 1, body := [0],
              console := [''WebGL not supported, polkadot effect disabled'']\<rparr>)"
    using t [THEN conjunct2, THEN conjunct1] by (simp add: f)
  have r: "fst (run updateDots_festive [AnimationFrame 16, Resize 1024 768, AnimationFrame 32]
             (new_festive (sampleWorld (1/2) 1000 False)))
        = fst (new_festive (sampleWorld (1/2) 1000 False))"
    using t [THEN conjunct2, THEN conjunct2, THEN conjunct2, THEN mp, OF l,
        THEN conjunct2, THEN conjunct2, THEN conjunct1] .
  show ?thesis by (intro conjI h l a r)
qed

section \<open>Destruction\<close>

lemma destroy_cancels:
  "animationId b = Some h \<Longrightarrow> h \<noteq> 0 \<Longrightarrow> h \<notin> set (frames (snd (destroy (b, w))))"
  by (simp add: destroy_def cancelAnimationFrame_def Let_def split: option.splits)

lemma destroy_removes:
  "canvas b = Some n \<Longrightarrow> n \<notin> set (body (snd (destroy (b, w))))"
  by (simp add: destroy_def cancelAnimationFrame_def Let_def split: option.splits)

lemma destroy_listeners:
  "resizeListeners (snd (destroy (b, w))) = resizeListeners w"
  by (simp add: destroy_def cancelAnimationFrame_def Let_def split: option.splits)

lemma destroy_instance: "fst (destroy (b, w)) = b"
  by (simp add: destroy_def Let_def)

lemma destroy_idem: "destroy (destroy (b, w)) = destroy (b, w)"
  by (simp add: destroy_def cancelAnimationFrame_def Let_def split: option.splits)

text \<open>Construction with WebGL followed at once by \<^verbatim>\<open>destroy\<close>.\<close>

lemma destroy_constructed:
  fixes b :: "'d background"
  assumes "freshHandles w"
    and "canvas b = Some (nextNode w)" "animationId b = Some (Suc (frameCounter w))"
    and "v = w\<lparr>rnd := s, perf := p,
        nextNode := Suc (nextNode w), body := nextNode w # body w,
        resizeListeners := resizeListeners w @ [Some (nextNode w)],
        frameCounter := Suc (frameCounter w), frames := frames w @ [Suc (frameCounter w)]\<rparr>"
  shows "body (snd (destroy (b, v))) = body w
       \<and> frames (snd (destroy (b, v))) = frames w
       \<and> console (snd (destroy (b, v))) = console w
       \<and> resizeListeners (snd (destroy (b, v))) = resizeListeners w @ [canvas b]"
  using assms
  by (simp add: destroy_def cancelAnimationFrame_def Let_def freshHandles_def)

text \<open>
  Claim C8, as stated, says that \<^verbatim>\<open>destroy\<close> reverses every change made at
  construction and that no registered resource, the resize listener of \<^verbatim>\<open>init\<close>
  included, remains. \<^verbatim>\<open>init\<close> registers the listener as an anonymous function and
  keeps no reference to it, and \<^verbatim>\<open>destroy\<close> does not touch the listeners: on a page
  with no resize listener, constructing the festive background and destroying it
  at once leaves one registered.
\<close>

theorem destroy_leaves_listener_counterexample:
  "webgl (sampleWorld (1 / 2) 1000 True)
   \<and> resizeListeners (sampleWorld (1 / 2) 1000 True) = []
   \<and> resizeListeners (snd (destroy (new_festive (sampleWorld (1 / 2) 1000 True)))) = [Some 0]"
proof -
  have g: "webgl (sampleWorld (1 / 2) 1000 True)" by (simp add: sampleWorld_def)
  obtain b v where n: "new_festive (sampleWorld (1 / 2) 1000 True) = (b, v)"
      and v: "resizeListeners v = resizeListeners (sampleWorld (1 / 2) 1000 True)
                @ [Some (nextNode (sampleWorld (1 / 2) 1000 True))]"
    using new_festive_with_webgl [OF g] by auto
  have "resizeListeners (snd (destroy (new_festive (sampleWorld (1 / 2) 1000 True))))
          = resizeListeners v"
    unfolding n by (rule destroy_listeners)
  then show ?thesis using g v by (simp add: sampleWorld_def)
qed

text \<open>
  Claim C8, amended. \<^verbatim>\<open>destroy\<close> cancels the pending frame request of the instance
  (whenever its handle is set; handles are never 0) and removes the canvas from
  the page; it leaves the resize listeners and the instance as they are, and a
  second call changes nothing more (it is idempotent, running or not). Called on
  an instance just constructed with WebGL, in each of the three scripts, it
  restores the children of the body and the pending frames of before the
  construction, but the resize listener that \<^verbatim>\<open>init\<close> added stays registered.
\<close>

theorem destroy_reverses_all_but_listener:
  "(animationId b = Some h \<and> h \<noteq> 0 \<longrightarrow> h \<notin> set (frames (snd (destroy (b, w)))))
   \<and> (canvas b = Some n \<longrightarrow> n \<notin> set (body (snd (destroy (b, w)))))
   \<and> resizeListeners (snd (destroy (b, w))) = resizeListeners w
   \<and> fst (destroy (b, w)) = b
   \<and> destroy (destroy (b, w)) = destroy (b, w)
   \<and> (webgl w \<and> freshHandles w \<longrightarrow>
         body (snd (destroy (new_dots w))) = body w
       \<and> frames (snd (destroy (new_dots w))) = frames w
       \<and> console (snd (destroy (new_dots w))) = console w
       \<and> resizeListeners (snd (destroy (new_dots w)))
            = resizeListeners w @ [canvas (fst (new_dots w))]
       \<and> body (snd (destroy (new_festive w))) = body w
       \<and> frames (snd (destroy (new_festive w))) = frames w
       \<and> console (snd (destroy (new_festive w))) = console w
       \<and> resizeListeners (snd (destroy (new_festive w)))
            = resizeListeners w @ [canvas (fst (new_festive w))]
       \<and> body (snd (destroy (new_tri w))) = body w
       \<and> frames (snd (destroy (new_tri w))) = frames w
       \<and> console (snd (destroy (new_tri w))) = console w
       \<and> resizeListeners (snd (destroy (new_tri w)))
            = resizeListeners w @ [canvas (fst (new_tri w))])"
proof -
  have constructed:
    "body (snd (destroy (new_dots w))) = body w
       \<and> frames (snd (destroy (new_dots w))) = frames w
       \<and> console (snd (destroy (new_dots w))) = console w
       \<and> resizeListeners (snd (destroy (new_dots w)))
            = resizeListeners w @ [canvas (fst (new_dots w))]
       \<and> body (snd (destroy (new_festive w))) = body w
       \<and> frames (snd (destroy (new_festive w))) = frames w
       \<and> console (snd (destroy (new_festive w))) = console w
       \<and> resizeListeners (snd (destroy (new_festive w)))
            = resizeListeners w @ [canvas (fst (new_festive w))]
       \<and> body (snd (destroy (new_tri w))) = body w
       \<and> frames (snd (destroy (new_tri w))) = frames w
       \<and> console (snd (destroy (new_tri w))) = console w
       \<and> resizeListeners (snd (destroy (new_tri w)))
            = resizeListeners w @ [canvas (fst (new_tri w))]"
    if g: "webgl w" and f: "freshHandles w"
  proof -
    obtain bd vd where d: "new_dots w = (bd, vd)" "canvas bd = Some (nextNode w)"
        "animationId bd = Some (Suc (frameCounter w))"
        "vd = w\<lparr>rnd := rnd w, perf := perf w,
          nextNode := Suc (nextNode w), body := nextNode w # body w,
          resizeListeners := resizeListeners w @ [Some (nextNode w)],
          frameCounter := Suc (frameCounter w), frames := frames w @ [Suc (frameCounter w)]\<rparr>"
      using new_dots_with_webgl [OF g] by (simp add: blank_def)
    obtain bf vf s p where e: "new_festive w = (bf, vf)" "canvas bf = Some (nextNode w)"
        "animationId bf = Some (Suc (frameCounter w))"
        "vf = w\<lparr>rnd := s, perf := p,
          nextNode := Suc (nextNode w), body := nextNode w # body w,
          resizeListeners := resizeListeners w @ [Some (nextNode w)],
          frameCounter := Suc (frameCounter w), frames := frames w @ [Suc (frameCounter w)]\<rparr>"
      using new_festive_with_webgl [OF g] by (auto simp: blank_def)
    obtain bt vt s' p' where t: "new_tri w = (bt, vt)" "canvas bt = Some (nextNode w)"
        "animationId bt = Some (Suc (frameCounter w))"
        "vt = w\<lparr>rnd := s', perf := p',
          nextNode := Suc (nextNode w), body := nextNode w # body w,
          resizeListeners := resizeListeners w @ [Some (nextNode w)],
          frameCounter := Suc (frameCounter w), frames := frames w @ [Suc (frameCounter w)]\<rparr>"
      using new_tri_with_webgl [OF g] by (auto simp: blank_def)
    show ?thesis
      using destroy_constructed [OF f d(2,3,4)] destroy_constructed [OF f e(2,3,4)]
        destroy_constructed [OF f t(2,3,4)]
      by (simp add: d(1) e(1) t(1))
  qed
  show ?thesis
    using constructed
    by (simp add: destroy_cancels destroy_removes destroy_listeners destroy_instance destroy_idem)
qed

theorem destroy_reverses_all_but_listener_witness:
  "animationId busyInstance = Some 7 \<and> (7 :: nat) \<noteq> 0 \<and> canvas busyInstance = Some 5
   \<and> webgl busyWorld \<and> freshHandles busyWorld
   \<and> 7 \<in> set (frames busyWorld) \<and> 5 \<in> set (body busyWorld)
   \<and> 7 \<notin> set (frames (snd (destroy (busyInstance, busyWorld))))
   \<and> 5 \<notin> set (body (snd (destroy (busyInstance, busyWorld))))
   \<and> body (snd (destroy (new_festive busyWorld))) = [5]
   \<and> frames (snd (destroy (new_festive busyWorld))) = [7]
   \<and> resizeListeners (snd (destroy (new_festive busyWorld))) = [canvas (fst (new_festive busyWorld))]"
proof -
  have h: "animationId busyInstance = Some 7 \<and> (7 :: nat) \<noteq> 0" "canvas busyInstance = Some 5"
    by (simp_all add: busyInstance_def blank_def)
  have g: "webgl busyWorld \<and> freshHandles busyWorld"
    by (simp add: busyWorld_def sampleWorld_def freshHandles_def)
  have p: "body busyWorld = [5]" "frames busyWorld = [7]" "resizeListeners busyWorld = []"
    by (simp_all add: busyWorld_def sampleWorld_def)
  note t = destroy_reverses_all_but_listener [of busyInstance 7 busyWorld 5]
  show ?thesis
    using h g t by (simp add: p)
qed

end
